theory Spec2Isabelle
  imports Main "HOL-Library.AList"
begin

section \<open>InsertQueryBuilder: data model\<close>

text \<open>
  A shallow embedding of \<^verbatim>\<open>src/query-builder/InsertQueryBuilder.ts\<close>.
  The builder is a class whose methods read and write \<^verbatim>\<open>this.expressionMap\<close>; here the
  builder is a record passed through every method and returned updated. A method that can
  throw returns \<open>error + result\<close>, with \<open>Inl\<close> the exception.
\<close>

subsection \<open>JavaScript values\<close>

text \<open>
  The values a value set can hold: \<^verbatim>\<open>undefined\<close>, \<^verbatim>\<open>null\<close>, literals, and a function
  (\<^verbatim>\<open>value instanceof Function\<close>), which stands for a raw SQL expression: \<open>Func t\<close> is a
  function whose call returns the text \<open>t\<close>.
\<close>

datatype jsvalue = Undefined | Null | Str string | Num int | Boolean bool | Func string

text \<open>An object literal: its own keys in insertion order (\<^verbatim>\<open>Object.keys\<close>).\<close>

type_synonym ObjectLiteral = "(string \<times> jsvalue) list"

subsection \<open>Errors\<close>

datatype error =
    ReturningStatementNotSupportedError
  | InsertValuesMissingError
  | TypeORMError string
  | ExternalError string

subsection \<open>Column metadata\<close>

datatype generationStrategy = Increment | Uuid | Rowid

record ColumnMetadata =
  propertyName :: string
  propertyPath :: string
  databaseName :: string
  isPrimary :: bool
  isGenerated :: bool
  generationStrategy :: "generationStrategy option"
  isInsert :: bool
  isVersion :: bool
  isDiscriminator :: bool
  columnType :: string
  srid :: "nat option"
  columnDefault :: jsvalue

text \<open>
  Modelled from the spec: \<^verbatim>\<open>ColumnMetadata.getEntityValue\<close> and
  \<^verbatim>\<open>ColumnMetadata.setEntityValue\<close> (metadata/ColumnMetadata.ts, not among the sources at hand). A value
  set is a mapping from column name to value; a column that is absent from it reads as
  \<^verbatim>\<open>undefined\<close>, and writing a column keeps the place of a key that is already there.
\<close>

definition getEntityValue :: "ColumnMetadata \<Rightarrow> ObjectLiteral \<Rightarrow> jsvalue" where
  "getEntityValue column valueSet =
     (case map_of valueSet (propertyName column) of None \<Rightarrow> Undefined | Some v \<Rightarrow> v)"

definition setEntityValue :: "ColumnMetadata \<Rightarrow> ObjectLiteral \<Rightarrow> jsvalue \<Rightarrow> ObjectLiteral" where
  "setEntityValue column entity v = AList.update (propertyName column) v entity"

record EntityMetadata =
  columns :: "ColumnMetadata list"
  discriminatorValue :: jsvalue

subsection \<open>Drivers\<close>

text \<open>
  The driver classes the builder tests with \<^verbatim>\<open>instanceof\<close>. A subclass counts as its base
  class (every SQLite flavour is an \<open>AbstractSqliteDriver\<close>); \<open>OtherDriver\<close> is any driver
  the builder never names.
\<close>

datatype driverClass =
    MysqlDriver | AuroraDataApiDriver | PostgresDriver | CockroachDriver
  | SqlServerDriver | OracleDriver | AbstractSqliteDriver | SapDriver | OtherDriver

datatype upsertType = OnConflictDoUpdate | OnDuplicateKeyUpdate

text \<open>
  The driver classes are not among the sources at hand: what the builder reads of a
  driver is a field here, and what it calls of it (\<^verbatim>\<open>escape\<close>,
  \<^verbatim>\<open>preparePersistentValue\<close>, \<^verbatim>\<open>normalizeDefault\<close>, \<^verbatim>\<open>parametrizeValue\<close>,
  \<^verbatim>\<open>buildTableVariableDeclaration\<close>) is a function parameter. \<open>outBindParameter\<close> is what
  the Oracle driver has bound for a column whose value a RETURNING clause brings back.
  \<open>supportedUpsertType = None\<close> is a driver that declares no upsert support.
\<close>

record Driver =
  driverClass :: driverClass
  supportedUpsertType :: "upsertType option"
  isReturningSqlSupported :: bool
  isUUIDGenerationSupported :: bool
  spatialTypes :: "string list"
  legacySpatialSupport :: bool
  escape :: "string \<Rightarrow> string"
  preparePersistentValue :: "jsvalue \<Rightarrow> ColumnMetadata \<Rightarrow> jsvalue"
  normalizeDefault :: "ColumnMetadata \<Rightarrow> string"
  parametrizeValue :: "ColumnMetadata \<Rightarrow> jsvalue \<Rightarrow> jsvalue"
  buildTableVariableDeclaration :: "string \<Rightarrow> ColumnMetadata list \<Rightarrow> string"
  outBindParameter :: "ColumnMetadata \<Rightarrow> jsvalue"

subsection \<open>The expression map and the builder\<close>

datatype valuesSet = NoValues | OneValueSet ObjectLiteral | ValueSets "ObjectLiteral list"

datatype returningArg = ReturningString string | ReturningColumns "string list"

datatype conflictTarget = ConflictString string | ConflictArray "string list"

record onUpdate =
  conflict :: "conflictTarget option"
  updateColumns :: "string list option"
  overwrite :: "string list option"

text \<open>
  The fields of \<^verbatim>\<open>this.expressionMap\<close> the insert builder uses, with the builder's own
  fields: the driver of its connection, the positional parameters bound so far, and the
  source of randomness \<^verbatim>\<open>RandomGenerator.uuid4\<close> draws from (\<open>random k\<close> is the
  \<open>k\<close>-th draw, \<open>randomUsed\<close> the number of draws made). \<open>metadata = None\<close> is
  \<^verbatim>\<open>mainAlias.hasMetadata === false\<close>.
\<close>

record InsertQueryBuilder =
  driver :: Driver
  tableName :: string
  metadata :: "EntityMetadata option"
  comment :: "string option"
  valuesSet :: valuesSet
  insertColumns :: "string list"
  returning_field :: "returningArg option"
  extraReturningColumns :: "ColumnMetadata list"
  onIgnore :: bool
  onConflict :: "string option"
  onUpdate :: "onUpdate option"
  updateEntity :: bool
  useTransaction :: bool
  callListeners :: bool
  locallyGenerated :: "nat \<rightharpoonup> ObjectLiteral"
  parameters :: "jsvalue list"
  random :: "nat \<Rightarrow> nat"
  randomUsed :: nat

section \<open>Configuration methods\<close>

text \<open>
  \<^verbatim>\<open>returning(returning)\<close>: throws when the driver has no RETURNING / OUTPUT support, before
  it writes anything; \<^verbatim>\<open>output(output)\<close> returns \<^verbatim>\<open>this.returning(output)\<close>.
\<close>

definition returning :: "returningArg \<Rightarrow> InsertQueryBuilder \<Rightarrow> error + InsertQueryBuilder" where
  "returning r this =
     (if \<not> isReturningSqlSupported (driver this) then Inl ReturningStatementNotSupportedError
      else Inr (this\<lparr>returning_field := Some r\<rparr>))"

definition output_m :: "returningArg \<Rightarrow> InsertQueryBuilder \<Rightarrow> error + InsertQueryBuilder" where
  "output_m r this = returning r this"

text \<open>\<^verbatim>\<open>onConflict(statement)\<close> stores the raw clause.\<close>

definition onConflict_m :: "string \<Rightarrow> InsertQueryBuilder \<Rightarrow> InsertQueryBuilder" where
  "onConflict_m statement this = this\<lparr>onConflict := Some statement\<rparr>"

text \<open>
  \<^verbatim>\<open>orIgnore(statement: string | boolean = true)\<close> stores \<^verbatim>\<open>!!statement\<close>: a string is
  truthy when it is not empty. A call without argument is \<open>orIgnore (IgnoreBool True)\<close>.
\<close>

datatype ignoreArg = IgnoreString string | IgnoreBool bool

fun truthy :: "ignoreArg \<Rightarrow> bool" where
  "truthy (IgnoreString s) = (s \<noteq> [])"
| "truthy (IgnoreBool b) = b"

definition orIgnore :: "ignoreArg \<Rightarrow> InsertQueryBuilder \<Rightarrow> InsertQueryBuilder" where
  "orIgnore statement this = this\<lparr>onIgnore := truthy statement\<rparr>"

text \<open>
  \<^verbatim>\<open>orUpdate(statementOrOverwrite?, conflictTarget?)\<close>: the first argument is absent, an object
  \<^verbatim>\<open>{columns?, overwrite?, conflict_target?}\<close>, or an array of column names to overwrite.
  The method has no \<^verbatim>\<open>throw\<close>; its result type is a sum only so that this can be said.
\<close>

record orUpdateStatement =
  st_columns :: "string list option"
  st_overwrite :: "string list option"
  st_conflict_target :: "conflictTarget option"

datatype orUpdateArg =
    NoStatement
  | Statement orUpdateStatement
  | Overwrite "string list"

fun orUpdate ::
  "orUpdateArg \<Rightarrow> conflictTarget option \<Rightarrow> InsertQueryBuilder \<Rightarrow> error + InsertQueryBuilder" where
  "orUpdate NoStatement conflictTarget this =
     Inr (this\<lparr>onUpdate := Some \<lparr>conflict = None, updateColumns = None, overwrite = None\<rparr>\<rparr>)"
| "orUpdate (Statement st) conflictTarget this =
     Inr (this\<lparr>onUpdate := Some \<lparr>conflict = st_conflict_target st,
                                   updateColumns = st_columns st,
                                   overwrite = st_overwrite st\<rparr>\<rparr>)"
| "orUpdate (Overwrite cols) conflictTarget this =
     Inr (this\<lparr>onUpdate := Some \<lparr>conflict = conflictTarget, updateColumns = None,
                                   overwrite = Some cols\<rparr>\<rparr>)"

section \<open>SQL text\<close>

text \<open>
  The builder appends to a string. The model keeps what was appended apart: \<open>Lit\<close> is text
  the builder writes itself (keywords, punctuation), \<open>Raw\<close> is text it copies in from
  outside (an escaped identifier, a raw expression, a default, a table name), \<open>Param\<close> is
  the placeholder \<^verbatim>\<open>createParameter\<close> returned for the positional parameter of that index,
  and \<open>Named\<close> is a placeholder \<^verbatim>\<open>:name\<close> the builder writes without binding a value.
  \<open>render\<close> is the string the code holds.
\<close>

datatype fragment = Lit string | Raw string | Param nat | Named string

definition digit :: "nat \<Rightarrow> char" where
  "digit n = ''0123456789'' ! (n mod 10)"

fun showNat :: "nat \<Rightarrow> string" where
  "showNat n = (if n < 10 then [digit n] else showNat (n div 10) @ [digit n])"

declare showNat.simps [simp del]

fun renderFragment :: "fragment \<Rightarrow> string" where
  "renderFragment (Lit s) = s"
| "renderFragment (Raw s) = s"
| "renderFragment (Param n) = '':orm_param_'' @ showNat n"
| "renderFragment (Named c) = '':'' @ c"

definition render :: "fragment list \<Rightarrow> string" where
  "render fs = concat (map renderFragment fs)"

text \<open>\<^verbatim>\<open>xs.join(sep)\<close> on pieces of SQL text.\<close>

fun join :: "fragment list \<Rightarrow> fragment list list \<Rightarrow> fragment list" where
  "join sep [] = []"
| "join sep [x] = x"
| "join sep (x # y # ys) = x @ sep @ join sep (y # ys)"

text \<open>The positional and the named placeholders of a text, in the order they occur.\<close>

fun placeholders :: "fragment list \<Rightarrow> nat list" where
  "placeholders [] = []"
| "placeholders (Param n # fs) = n # placeholders fs"
| "placeholders (f # fs) = placeholders fs"

fun namedPlaceholders :: "fragment list \<Rightarrow> string list" where
  "namedPlaceholders [] = []"
| "namedPlaceholders (Named c # fs) = c # namedPlaceholders fs"
| "namedPlaceholders (f # fs) = namedPlaceholders fs"

text \<open>\<^verbatim>\<open>String.prototype.trim\<close>: white space goes from both ends, nothing else changes.\<close>

definition isSpace :: "char \<Rightarrow> bool" where
  "isSpace c = (c \<in> set [CHR '' '', CHR 0x09, CHR 0x0A, CHR 0x0B, CHR 0x0C, CHR 0x0D])"

fun trimStart :: "fragment list \<Rightarrow> fragment list" where
  "trimStart (Lit s # fs) = (case dropWhile isSpace s of [] \<Rightarrow> trimStart fs | t \<Rightarrow> Lit t # fs)"
| "trimStart (Raw s # fs) = (case dropWhile isSpace s of [] \<Rightarrow> trimStart fs | t \<Rightarrow> Raw t # fs)"
| "trimStart fs = fs"

fun backwards :: "fragment \<Rightarrow> fragment" where
  "backwards (Lit s) = Lit (rev s)"
| "backwards (Raw s) = Raw (rev s)"
| "backwards f = f"

definition trimEnd :: "fragment list \<Rightarrow> fragment list" where
  "trimEnd fs = rev (map backwards (trimStart (map backwards (rev fs))))"

definition trim :: "fragment list \<Rightarrow> fragment list" where
  "trim fs = trimEnd (trimStart fs)"

section \<open>Parameters and generated values\<close>

text \<open>
  Modelled from the spec: \<^verbatim>\<open>QueryBuilder.createParameter\<close> (query-builder/QueryBuilder.ts,
  not among the sources at hand). The compiler produces, next to the SQL text, one flat positional
  parameter array: binding a value appends it to the array and returns the placeholder
  of its position.
\<close>

definition createParameter :: "jsvalue \<Rightarrow> InsertQueryBuilder \<Rightarrow> fragment list \<times> InsertQueryBuilder" where
  "createParameter v this =
     ([Param (length (parameters this))], this\<lparr>parameters := parameters this @ [v]\<rparr>)"

text \<open>
  Modelled from the spec: \<^verbatim>\<open>RandomGenerator.uuid4\<close> (util/RandomGenerator.ts, not among the
  sources at hand): a freshly generated UUID, in the textual form of a version 4 UUID (32
  hexadecimal digits in groups of 8, 4, 4, 4 and 12), read from draws of the random
  source that no earlier call has used.
\<close>

definition hexDigit :: "nat \<Rightarrow> char" where
  "hexDigit n = ''0123456789abcdef'' ! (n mod 16)"

definition uuidText :: "(nat \<Rightarrow> nat) \<Rightarrow> nat \<Rightarrow> string" where
  "uuidText r k =
     map (\<lambda>i. hexDigit (r (k + i))) [0..<8] @ ''-'' @
     map (\<lambda>i. hexDigit (r (k + i))) [8..<12] @ ''-4'' @
     map (\<lambda>i. hexDigit (r (k + i))) [12..<15] @ ''-'' @
     map (\<lambda>i. hexDigit (r (k + i))) [15..<19] @ ''-'' @
     map (\<lambda>i. hexDigit (r (k + i))) [19..<31]"

definition uuid4 :: "InsertQueryBuilder \<Rightarrow> string \<times> InsertQueryBuilder" where
  "uuid4 this =
     (uuidText (random this) (randomUsed this), this\<lparr>randomUsed := randomUsed this + 31\<rparr>)"

section \<open>Value sets and columns\<close>

text \<open>\<^verbatim>\<open>getValueSets()\<close>: an array as it is, one object as an array of one, else a throw.\<close>

definition getValueSets :: "InsertQueryBuilder \<Rightarrow> error + ObjectLiteral list" where
  "getValueSets this =
     (case valuesSet this of
        ValueSets vs \<Rightarrow> Inr vs
      | OneValueSet v \<Rightarrow> Inr [v]
      | NoValues \<Rightarrow> Inl InsertValuesMissingError)"

text \<open>
  \<^verbatim>\<open>isOverridingAutoIncrementBehavior(column)\<close>. The \<^verbatim>\<open>&&\<close> chain calls
  \<^verbatim>\<open>getValueSets()\<close>, which can throw, only after the three flags held.
\<close>

definition hasValue :: "ColumnMetadata \<Rightarrow> ObjectLiteral \<Rightarrow> bool" where
  "hasValue column valueSet =
     (getEntityValue column valueSet \<noteq> Undefined \<and> getEntityValue column valueSet \<noteq> Null)"

definition isOverridingAutoIncrementBehavior ::
  "InsertQueryBuilder \<Rightarrow> ColumnMetadata \<Rightarrow> error + bool" where
  "isOverridingAutoIncrementBehavior this column =
     (if isPrimary column \<and> isGenerated column \<and> generationStrategy column = Some Increment
      then (case getValueSets this of
              Inl e \<Rightarrow> Inl e
            | Inr valueSets \<Rightarrow> Inr (list_ex (hasValue column) valueSets))
      else Inr False)"

text \<open>\<^verbatim>\<open>Array.prototype.filter\<close> and \<^verbatim>\<open>Array.prototype.some\<close> with a callback that can throw.\<close>

fun filterE :: "('a \<Rightarrow> error + bool) \<Rightarrow> 'a list \<Rightarrow> error + 'a list" where
  "filterE p [] = Inr []"
| "filterE p (x # xs) =
     (case p x of
        Inl e \<Rightarrow> Inl e
      | Inr b \<Rightarrow> (case filterE p xs of
                   Inl e \<Rightarrow> Inl e
                 | Inr ys \<Rightarrow> Inr (if b then x # ys else ys)))"

fun someE :: "('a \<Rightarrow> error + bool) \<Rightarrow> 'a list \<Rightarrow> error + bool" where
  "someE p [] = Inr False"
| "someE p (x # xs) =
     (case p x of
        Inl e \<Rightarrow> Inl e
      | Inr b \<Rightarrow> if b then Inr True else someE p xs)"

text \<open>The callback of the filter in \<^verbatim>\<open>getInsertedColumns()\<close>.\<close>

definition isInsertedColumn :: "InsertQueryBuilder \<Rightarrow> ColumnMetadata \<Rightarrow> error + bool" where
  "isInsertedColumn this column =
     (let dc = driverClass (driver this) in
      if insertColumns this \<noteq> [] then Inr (propertyPath column \<in> set (insertColumns this))
      else if \<not> isInsert column then Inr False
      else if isGenerated column \<and> generationStrategy column = Some Increment
              \<and> dc \<noteq> OracleDriver \<and> dc \<noteq> AbstractSqliteDriver
              \<and> dc \<noteq> MysqlDriver \<and> dc \<noteq> AuroraDataApiDriver
      then (if dc = SqlServerDriver
            then (case isOverridingAutoIncrementBehavior this column of
                    Inl e \<Rightarrow> Inl e
                  | Inr overriding \<Rightarrow> Inr overriding)
            else Inr False)
      else Inr True)"

definition getInsertedColumns :: "InsertQueryBuilder \<Rightarrow> error + ColumnMetadata list" where
  "getInsertedColumns this =
     (case metadata this of
        None \<Rightarrow> Inr []
      | Some m \<Rightarrow> filterE (isInsertedColumn this) (columns m))"

text \<open>\<^verbatim>\<open>createColumnNamesExpression()\<close>.\<close>

definition escapedNames :: "InsertQueryBuilder \<Rightarrow> string list \<Rightarrow> fragment list" where
  "escapedNames this names = join [Lit '', ''] (map (\<lambda>n. [Raw (escape (driver this) n)]) names)"

definition createColumnNamesExpression :: "InsertQueryBuilder \<Rightarrow> error + fragment list" where
  "createColumnNamesExpression this =
     (case getInsertedColumns this of
        Inl e \<Rightarrow> Inl e
      | Inr cols \<Rightarrow>
          if cols \<noteq> [] then Inr (escapedNames this (map databaseName cols))
          else if metadata this = None \<and> insertColumns this = []
          then (case getValueSets this of
                  Inl e \<Rightarrow> Inl e
                | Inr valueSets \<Rightarrow>
                    (case valueSets of
                       [valueSet] \<Rightarrow> Inr (escapedNames this (map fst valueSet))
                     | _ \<Rightarrow> Inr (escapedNames this (insertColumns this))))
          else Inr (escapedNames this (insertColumns this)))"

section \<open>The VALUES expression\<close>

text \<open>
  \<^verbatim>\<open>this.connection.driver instanceof OracleDriver && valueSets.length > 1\<close>: Oracle has no
  multi-row VALUES, the rows are SELECTs joined by UNION ALL.
\<close>

definition oracleMultiRow :: "InsertQueryBuilder \<Rightarrow> nat \<Rightarrow> bool" where
  "oracleMultiRow this n = (driverClass (driver this) = OracleDriver \<and> n > 1)"

definition isSpatial :: "InsertQueryBuilder \<Rightarrow> ColumnMetadata \<Rightarrow> bool" where
  "isSpatial this column = (columnType column \<in> set (spatialTypes (driver this)))"

text \<open>
  The last branch of the chain (\<^verbatim>\<open>just any other regular value\<close>): the value is bound as a
  parameter, and a spatial column wraps the placeholder in the driver's function.
\<close>

definition regularValueExpression ::
  "ColumnMetadata \<Rightarrow> jsvalue \<Rightarrow> InsertQueryBuilder \<Rightarrow> fragment list \<times> InsertQueryBuilder" where
  "regularValueExpression column v0 this =
     (let dc = driverClass (driver this);
          v = (if dc = SqlServerDriver then parametrizeValue (driver this) column v0 else v0)
      in case createParameter v this of
        (paramName, this1) \<Rightarrow>
          (if (dc = MysqlDriver \<or> dc = AuroraDataApiDriver) \<and> isSpatial this column
           then (let geomFromText =
                       (if legacySpatialSupport (driver this) then ''GeomFromText''
                        else ''ST_GeomFromText'')
                 in case srid column of
                      Some n \<Rightarrow> [Lit (geomFromText @ ''('')] @ paramName @
                                 [Lit '', '', Raw (showNat n), Lit '')'']
                    | None \<Rightarrow> [Lit (geomFromText @ ''('')] @ paramName @ [Lit '')''])
           else if dc = PostgresDriver \<and> isSpatial this column
           then (case srid column of
                   Some n \<Rightarrow> [Lit ''ST_SetSRID(ST_GeomFromGeoJSON(''] @ paramName @
                              [Lit ''), '', Raw (showNat n), Lit '')::'', Raw (columnType column)]
                 | None \<Rightarrow> [Lit ''ST_GeomFromGeoJSON(''] @ paramName @
                            [Lit '')::'', Raw (columnType column)])
           else if dc = SqlServerDriver \<and> isSpatial this column
           then [Raw (columnType column), Lit ''::STGeomFromText(''] @ paramName @
                [Lit '', '',
                 Raw (case srid column of None \<Rightarrow> ''0'' | Some n \<Rightarrow> if n = 0 then ''0'' else showNat n),
                 Lit '')'']
           else paramName,
           this1))"

text \<open>
  Lines 492 to 506: the value of the column in the value set, normalized by the driver
  unless it is a function.
\<close>

definition persistentValue :: "InsertQueryBuilder \<Rightarrow> ColumnMetadata \<Rightarrow> ObjectLiteral \<Rightarrow> jsvalue" where
  "persistentValue this column valueSet =
     (let v0 = getEntityValue column valueSet
      in case v0 of Func t \<Rightarrow> v0 | _ \<Rightarrow> preparePersistentValue (driver this) v0 column)"

text \<open>
  The body of the inner \<^verbatim>\<open>columns.forEach\<close> between the opening and the closing of the
  row: what one column of one value set adds to the expression (lines 492 to 594).
\<close>

definition columnValueExpression ::
  "nat \<Rightarrow> nat \<Rightarrow> ObjectLiteral \<Rightarrow> ColumnMetadata \<Rightarrow> InsertQueryBuilder
     \<Rightarrow> fragment list \<times> InsertQueryBuilder" where
  "columnValueExpression n valueSetIndex valueSet column this =
     (let dc = driverClass (driver this);
          v = persistentValue this column valueSet
      in if isVersion column \<and> v = Undefined then ([Lit ''1''], this)
         else if isDiscriminator column
         then createParameter
                (case metadata this of None \<Rightarrow> Undefined | Some m \<Rightarrow> discriminatorValue m) this
         else if isGenerated column \<and> generationStrategy column = Some Uuid
                 \<and> \<not> isUUIDGenerationSupported (driver this) \<and> v = Undefined
         then (case uuid4 this of
                 (u, this1) \<Rightarrow>
                   (case createParameter (Str u) this1 of
                      (paramName, this2) \<Rightarrow>
                        (let generated =
                               (case locallyGenerated this2 valueSetIndex of
                                  None \<Rightarrow> [] | Some entity \<Rightarrow> entity)
                         in (paramName,
                             this2\<lparr>locallyGenerated :=
                                     (locallyGenerated this2)
                                       (valueSetIndex \<mapsto> setEntityValue column generated (Str u))\<rparr>))))
         else if v = Undefined
         then (if oracleMultiRow this n \<or> dc = AbstractSqliteDriver \<or> dc = SapDriver
               then (if columnDefault column \<noteq> Undefined \<and> columnDefault column \<noteq> Null
                     then ([Raw (normalizeDefault (driver this) column)], this)
                     else ([Lit ''NULL''], this))
               else ([Lit ''DEFAULT''], this))
         else (case v of
                 Func t \<Rightarrow> ([Raw t], this)
               | _ \<Rightarrow> regularValueExpression column v this))"

text \<open>What opens a row before its first column, and what follows each column.\<close>

definition rowOpening :: "InsertQueryBuilder \<Rightarrow> nat \<Rightarrow> nat \<Rightarrow> fragment list" where
  "rowOpening this n columnIndex =
     (if columnIndex = 0
      then (if oracleMultiRow this n then [Lit '' SELECT ''] else [Lit ''(''])
      else [])"

definition columnClosing :: "InsertQueryBuilder \<Rightarrow> nat \<Rightarrow> nat \<Rightarrow> nat \<Rightarrow> nat \<Rightarrow> fragment list" where
  "columnClosing this n valueSetIndex columnCount columnIndex =
     (if columnIndex = columnCount - 1
      then (if valueSetIndex = n - 1
            then (if oracleMultiRow this n then [Lit '' FROM DUAL ''] else [Lit '')''])
            else (if oracleMultiRow this n then [Lit '' FROM DUAL UNION ALL '']
                  else [Lit ''), '']))
      else [Lit '', ''])"

text \<open>
  The inner loop \<^verbatim>\<open>columns.forEach((column, columnIndex) => ...)\<close> over the columns that
  are left, \<open>columnIndex\<close> the index of the first of them.
\<close>

fun columnsLoop ::
  "nat \<Rightarrow> nat \<Rightarrow> ObjectLiteral \<Rightarrow> nat \<Rightarrow> nat \<Rightarrow> ColumnMetadata list \<Rightarrow> InsertQueryBuilder
     \<Rightarrow> fragment list \<times> InsertQueryBuilder" where
  "columnsLoop n valueSetIndex valueSet columnCount columnIndex [] this = ([], this)"
| "columnsLoop n valueSetIndex valueSet columnCount columnIndex (column # rest) this =
     (case columnValueExpression n valueSetIndex valueSet column this of
        (e, this1) \<Rightarrow>
          (case columnsLoop n valueSetIndex valueSet columnCount (Suc columnIndex) rest this1 of
             (es, this2) \<Rightarrow>
               (rowOpening this n columnIndex @ e @
                columnClosing this n valueSetIndex columnCount columnIndex @ es, this2)))"

text \<open>The outer loop \<^verbatim>\<open>valueSets.forEach((valueSet, valueSetIndex) => ...)\<close>.\<close>

fun valueSetsLoop ::
  "nat \<Rightarrow> ColumnMetadata list \<Rightarrow> nat \<Rightarrow> ObjectLiteral list \<Rightarrow> InsertQueryBuilder
     \<Rightarrow> fragment list \<times> InsertQueryBuilder" where
  "valueSetsLoop n cols valueSetIndex [] this = ([], this)"
| "valueSetsLoop n cols valueSetIndex (valueSet # rest) this =
     (case columnsLoop n valueSetIndex valueSet (length cols) 0 cols this of
        (e, this1) \<Rightarrow>
          (case valueSetsLoop n cols (Suc valueSetIndex) rest this1 of
             (es, this2) \<Rightarrow> (e @ es, this2)))"

text \<open>
  The same two loops for a table without metadata (lines 619 to 665): the columns of a
  row are the keys of its own value set.
\<close>

definition rawValueExpression ::
  "jsvalue \<Rightarrow> InsertQueryBuilder \<Rightarrow> fragment list \<times> InsertQueryBuilder" where
  "rawValueExpression v this =
     (let dc = driverClass (driver this)
      in case v of
           Func t \<Rightarrow> ([Raw t], this)
         | Undefined \<Rightarrow>
             (if dc = AbstractSqliteDriver \<or> dc = SapDriver then ([Lit ''NULL''], this)
              else ([Lit ''DEFAULT''], this))
         | _ \<Rightarrow> createParameter v this)"

fun keysLoop ::
  "nat \<Rightarrow> nat \<Rightarrow> ObjectLiteral \<Rightarrow> nat \<Rightarrow> nat \<Rightarrow> string list \<Rightarrow> InsertQueryBuilder
     \<Rightarrow> fragment list \<times> InsertQueryBuilder" where
  "keysLoop n insertionIndex valueSet keyCount columnIndex [] this = ([], this)"
| "keysLoop n insertionIndex valueSet keyCount columnIndex (columnName # rest) this =
     (case rawValueExpression
             (case map_of valueSet columnName of None \<Rightarrow> Undefined | Some v \<Rightarrow> v) this of
        (e, this1) \<Rightarrow>
          (case keysLoop n insertionIndex valueSet keyCount (Suc columnIndex) rest this1 of
             (es, this2) \<Rightarrow>
               ((if columnIndex = 0 then [Lit ''(''] else []) @ e @
                (if columnIndex = keyCount - 1
                 then (if insertionIndex = n - 1 then [Lit '')''] else [Lit ''), ''])
                 else [Lit '', '']) @ es, this2)))"

fun rawValueSetsLoop ::
  "nat \<Rightarrow> nat \<Rightarrow> ObjectLiteral list \<Rightarrow> InsertQueryBuilder
     \<Rightarrow> fragment list \<times> InsertQueryBuilder" where
  "rawValueSetsLoop n insertionIndex [] this = ([], this)"
| "rawValueSetsLoop n insertionIndex (valueSet # rest) this =
     (case keysLoop n insertionIndex valueSet (length (map fst valueSet)) 0 (map fst valueSet) this of
        (e, this1) \<Rightarrow>
          (case rawValueSetsLoop n (Suc insertionIndex) rest this1 of
             (es, this2) \<Rightarrow> (e @ es, this2)))"

text \<open>
  \<^verbatim>\<open>createValuesExpression()\<close>. The empty string it returns for \<^verbatim>\<open>"()"\<close> is the empty list of
  fragments.
\<close>

definition createValuesExpression ::
  "InsertQueryBuilder \<Rightarrow> error + fragment list \<times> InsertQueryBuilder" where
  "createValuesExpression this =
     (case getValueSets this of
        Inl e \<Rightarrow> Inl e
      | Inr valueSets \<Rightarrow>
          (case getInsertedColumns this of
             Inl e \<Rightarrow> Inl e
           | Inr cols \<Rightarrow>
               (case (if cols \<noteq> [] then valueSetsLoop (length valueSets) cols 0 valueSets this
                      else rawValueSetsLoop (length valueSets) 0 valueSets this) of
                  (expression, this1) \<Rightarrow>
                    if render expression = ''()'' then Inr ([], this1)
                    else Inr (expression, this1))))"

section \<open>The INSERT expression\<close>

text \<open>
  Modelled from the spec: \<^verbatim>\<open>EntityMetadata.findColumnsWithPropertyPath\<close> and
  \<^verbatim>\<open>QueryBuilder.createReturningExpression\<close> (not among the sources at hand). The returning columns are
  the explicitly requested columns, resolved against the schema metadata, and then the
  extra columns the update-entity feature needs that are not among them; the expression
  is their escaped names, or the raw returning expression when there are no columns.
  On Oracle the returned values come back through parameters: after the names,
  \<^verbatim>\<open>INTO\<close> is followed by one bound parameter for each column. This is why
  \<^verbatim>\<open>createInsertExpression()\<close> computes the values expression first (line 318: "oracle rely
  on native parameters and ordering of them is important").
\<close>

definition findColumnsWithPropertyPath :: "EntityMetadata \<Rightarrow> string \<Rightarrow> ColumnMetadata list" where
  "findColumnsWithPropertyPath m path = filter (\<lambda>c. propertyPath c = path) (columns m)"

definition requestedReturningColumns :: "InsertQueryBuilder \<Rightarrow> ColumnMetadata list" where
  "requestedReturningColumns this =
     (case (returning_field this, metadata this) of
        (Some (ReturningColumns paths), Some m) \<Rightarrow> concat (map (findColumnsWithPropertyPath m) paths)
      | _ \<Rightarrow> [])"

fun bindAll ::
  "jsvalue list \<Rightarrow> InsertQueryBuilder \<Rightarrow> fragment list list \<times> InsertQueryBuilder" where
  "bindAll [] this = ([], this)"
| "bindAll (v # vs) this =
     (case createParameter v this of
        (paramName, this1) \<Rightarrow>
          (case bindAll vs this1 of (paramNames, this2) \<Rightarrow> (paramName # paramNames, this2)))"

definition createReturningExpression ::
  "InsertQueryBuilder \<Rightarrow> fragment list \<times> InsertQueryBuilder" where
  "createReturningExpression this =
     (let requested = requestedReturningColumns this;
          cols = requested @ filter (\<lambda>c. c \<notin> set requested) (extraReturningColumns this)
      in if cols \<noteq> []
         then (if driverClass (driver this) = OracleDriver
               then (case bindAll (map (outBindParameter (driver this)) cols) this of
                       (paramNames, this1) \<Rightarrow>
                         (escapedNames this (map databaseName cols) @ [Lit '' INTO ''] @
                          join [Lit '', ''] paramNames, this1))
               else (escapedNames this (map databaseName cols), this))
         else (case returning_field this of
                 Some (ReturningString r) \<Rightarrow> ([Raw r], this)
               | _ \<Rightarrow> ([], this)))"

text \<open>
  The upsert clause (lines 356 to 400): a dispatch on \<^verbatim>\<open>driver.supportedUpsertType\<close>. The
  only throw is in the last branch. A string is truthy when it is not empty, an array
  always.
\<close>

definition conflictTargetExpression :: "InsertQueryBuilder \<Rightarrow> conflictTarget option \<Rightarrow> fragment list" where
  "conflictTargetExpression this c =
     [Lit ''ON CONFLICT''] @
     (case c of
        Some (ConflictArray cols) \<Rightarrow> [Lit '' ( ''] @ escapedNames this cols @ [Lit '' )'']
      | Some (ConflictString name) \<Rightarrow>
          (if name \<noteq> [] then [Lit '' ON CONSTRAINT '', Raw (escape (driver this) name)] else [])
      | None \<Rightarrow> [])"

definition onConflictText :: "InsertQueryBuilder \<Rightarrow> string" where
  "onConflictText this = (case onConflict this of None \<Rightarrow> [] | Some statement \<Rightarrow> statement)"

definition upsertExpression :: "InsertQueryBuilder \<Rightarrow> error + fragment list" where
  "upsertExpression this =
     (case supportedUpsertType (driver this) of
        Some OnConflictDoUpdate \<Rightarrow>
          (if onIgnore this then Inr [Lit '' ON CONFLICT DO NOTHING '']
           else if onConflictText this \<noteq> []
           then Inr [Lit '' ON CONFLICT '', Raw (onConflictText this), Lit '' '']
           else (case onUpdate this of
                   None \<Rightarrow> Inr []
                 | Some u \<Rightarrow>
                     (case overwrite u of
                        Some cols \<Rightarrow>
                          Inr ([Lit '' ''] @ conflictTargetExpression this (conflict u) @
                               [Lit '' DO UPDATE SET ''] @
                               join [Lit '', '']
                                 (map (\<lambda>c. [Raw (escape (driver this) c), Lit '' = EXCLUDED.'',
                                            Raw (escape (driver this) c)]) cols) @
                               [Lit '' ''])
                      | None \<Rightarrow>
                          (case updateColumns u of
                             Some cols \<Rightarrow>
                               Inr ([Lit '' ''] @ conflictTargetExpression this (conflict u) @
                                    [Lit '' DO UPDATE SET ''] @
                                    join [Lit '', '']
                                      (map (\<lambda>c. [Raw (escape (driver this) c), Lit '' = '',
                                                 Named c]) cols) @
                                    [Lit '' ''])
                           | None \<Rightarrow> Inr []))))
      | Some OnDuplicateKeyUpdate \<Rightarrow>
          (case onUpdate this of
             None \<Rightarrow> Inr []
           | Some u \<Rightarrow>
               (case overwrite u of
                  Some cols \<Rightarrow>
                    Inr ([Lit '' ON DUPLICATE KEY UPDATE ''] @
                         join [Lit '', '']
                           (map (\<lambda>c. [Raw (escape (driver this) c), Lit '' = VALUES('',
                                      Raw (escape (driver this) c), Lit '')'']) cols) @
                         [Lit '' ''])
                | None \<Rightarrow>
                    (case updateColumns u of
                       Some cols \<Rightarrow>
                         Inr ([Lit '' ON DUPLICATE KEY UPDATE ''] @
                              join [Lit '', '']
                                (map (\<lambda>c. [Raw (escape (driver this) c), Lit '' = '',
                                           Named c]) cols) @
                              [Lit '' ''])
                     | None \<Rightarrow> Inr [])))
      | None \<Rightarrow>
          (if onUpdate this \<noteq> None
           then Inl (TypeORMError ''onUpdate is not supported by the current database driver'')
           else Inr []))"

text \<open>
  The condition of the IDENTITY_INSERT wrapper (lines 410 to 415): on SQL Server, with
  metadata, some selected column overrides the auto-increment behaviour.
\<close>

definition isSelectedColumn :: "InsertQueryBuilder \<Rightarrow> ColumnMetadata \<Rightarrow> bool" where
  "isSelectedColumn this column =
     (if insertColumns this \<noteq> [] then propertyPath column \<in> set (insertColumns this)
      else isInsert column)"

definition needsIdentityInsert :: "InsertQueryBuilder \<Rightarrow> error + bool" where
  "needsIdentityInsert this =
     (if driverClass (driver this) = SqlServerDriver
      then (case metadata this of
              None \<Rightarrow> Inr False
            | Some m \<Rightarrow>
                someE (isOverridingAutoIncrementBehavior this)
                  (filter (isSelectedColumn this) (columns m)))
      else Inr False)"

text \<open>
  The text of the statement between \<^verbatim>\<open>let query = "INSERT "\<close> and the upsert clause (lines
  321 to 355), from the three expressions computed before it. An expression is truthy
  when its text is not empty.
\<close>

definition insertIntoExpression ::
  "InsertQueryBuilder \<Rightarrow> nat \<Rightarrow> fragment list \<Rightarrow> fragment list \<Rightarrow> fragment list \<Rightarrow> fragment list" where
  "insertIntoExpression this n valuesExpression returningExpression columnsExpression =
     (let dc = driverClass (driver this);
          mysql = (dc = MysqlDriver \<or> dc = AuroraDataApiDriver)
      in [Lit ''INSERT ''] @
         (if mysql then (if onIgnore this then [Lit '' IGNORE ''] else []) else []) @
         [Lit ''INTO '', Raw (tableName this)] @
         (if render columnsExpression \<noteq> [] then [Lit ''(''] @ columnsExpression @ [Lit '')'']
          else if render valuesExpression = [] \<and> mysql then [Lit ''()'']
          else []) @
         (if render returningExpression \<noteq> [] \<and> dc = SqlServerDriver
          then [Lit '' OUTPUT ''] @ returningExpression else []) @
         (if render valuesExpression \<noteq> []
          then (if oracleMultiRow this n then [Lit '' ''] @ valuesExpression
                else [Lit '' VALUES ''] @ valuesExpression)
          else (if mysql then [Lit '' VALUES ()''] else [Lit '' DEFAULT VALUES''])))"

text \<open>
  \<^verbatim>\<open>createInsertExpression()\<close>. The calls are in the order of the source: the values
  expression first (it binds the parameters), then the returning expression, which is
  skipped for a multi-row insert on Oracle, then the column names. The source calls
  \<^verbatim>\<open>getValueSets()\<close> again for the number of value sets on Oracle only; the call cannot
  throw there, since \<^verbatim>\<open>createValuesExpression()\<close> has made it before on the same values.
\<close>

definition createInsertExpression ::
  "InsertQueryBuilder \<Rightarrow> error + fragment list \<times> InsertQueryBuilder" where
  "createInsertExpression this =
     (case createValuesExpression this of
        Inl e \<Rightarrow> Inl e
      | Inr (valuesExpression, this1) \<Rightarrow>
          (case getValueSets this1 of
             Inl e \<Rightarrow> Inl e
           | Inr valueSets \<Rightarrow>
               (let n = length valueSets;
                    dc = driverClass (driver this1)
                in case (if oracleMultiRow this1 n then ([], this1)
                         else createReturningExpression this1) of
                     (returningExpression, this2) \<Rightarrow>
                       (case createColumnNamesExpression this2 of
                          Inl e \<Rightarrow> Inl e
                        | Inr columnsExpression \<Rightarrow>
                            (case upsertExpression this2 of
                               Inl e \<Rightarrow> Inl e
                             | Inr upsert \<Rightarrow>
                                 (let query =
                                        insertIntoExpression this2 n valuesExpression
                                          returningExpression columnsExpression @
                                        upsert @
                                        (if render returningExpression \<noteq> [] \<and>
                                            (dc = PostgresDriver \<or> dc = OracleDriver \<or>
                                             dc = CockroachDriver)
                                         then [Lit '' RETURNING ''] @ returningExpression else [])
                                  in case needsIdentityInsert this2 of
                                       Inl e \<Rightarrow> Inl e
                                     | Inr True \<Rightarrow>
                                         Inr ([Lit ''SET IDENTITY_INSERT '', Raw (tableName this2),
                                               Lit '' ON; ''] @ query @
                                              [Lit ''; SET IDENTITY_INSERT '',
                                               Raw (tableName this2), Lit '' OFF''], this2)
                                     | Inr False \<Rightarrow> Inr (query, this2)))))))"

text \<open>
  \<^verbatim>\<open>getQuery()\<close>, with \<^verbatim>\<open>createComment()\<close> (of the base class) as the comment text, if any.
\<close>

definition createComment :: "InsertQueryBuilder \<Rightarrow> fragment list" where
  "createComment this =
     (case comment this of None \<Rightarrow> [] | Some c \<Rightarrow> [Lit ''/* '', Raw c, Lit '' */ ''])"

definition getQuery :: "InsertQueryBuilder \<Rightarrow> error + fragment list \<times> InsertQueryBuilder" where
  "getQuery this =
     (case createInsertExpression this of
        Inl e \<Rightarrow> Inl e
      | Inr (sql, this1) \<Rightarrow> Inr (trim (createComment this @ sql), this1))"

text \<open>
  Modelled from the spec: \<^verbatim>\<open>QueryBuilder.getQueryAndParameters\<close> (not among the sources
  at hand): the SQL text of \<^verbatim>\<open>getQuery()\<close> with the flat parameter array, whose order is
  the order in which the placeholders occur in the text: for each placeholder of a
  bound parameter, the value the builder holds for it. A parameter bound by an earlier
  compilation has no placeholder in the text and no entry in the array.
\<close>

definition boundValue :: "InsertQueryBuilder \<Rightarrow> nat \<Rightarrow> jsvalue" where
  "boundValue this n = (if n < length (parameters this) then parameters this ! n else Undefined)"

definition getQueryAndParameters ::
  "InsertQueryBuilder \<Rightarrow> error + (fragment list \<times> jsvalue list) \<times> InsertQueryBuilder" where
  "getQueryAndParameters this =
     (case getQuery this of
        Inl e \<Rightarrow> Inl e
      | Inr (sql, this1) \<Rightarrow> Inr ((sql, map (boundValue this1) (placeholders sql)), this1))"

section \<open>Execution\<close>

text \<open>
  \<^verbatim>\<open>execute()\<close> talks to collaborators that are not among the sources at hand: the query runner, the
  broadcaster of the before and after insert events, and the
  \<^verbatim>\<open>ReturningResultsEntityUpdator\<close>. What they do is a parameter: for each awaited call,
  whether it fails and with which error. Every call \<^verbatim>\<open>execute()\<close> makes on them is
  recorded, in order, in a trace.
\<close>

record InsertResult =
  identifiers :: "ObjectLiteral list"
  generatedMaps :: "ObjectLiteral list"
  raw :: "string option"

text \<open>
  Modelled from the spec: \<^verbatim>\<open>new InsertResult()\<close> and \<^verbatim>\<open>InsertResult.from\<close>
  (query-builder/result/InsertResult.ts, not among the sources at hand): the outcome without any
  effect has no generated identifier, no generated map and no raw engine result; the
  outcome of a dispatched statement carries the raw engine result.
\<close>

definition newInsertResult :: InsertResult where
  "newInsertResult = \<lparr>identifiers = [], generatedMaps = [], raw = None\<rparr>"

definition insertResultFrom :: "string \<Rightarrow> InsertResult" where
  "insertResultFrom queryResult = \<lparr>identifiers = [], generatedMaps = [], raw = Some queryResult\<rparr>"

record Collaborators =
  callerQueryRunner :: bool
  isTransactionActive :: bool
  startTransaction :: "error option"
  beforeInsertBroadcast :: "error option"
  insertionReturningColumns :: "ColumnMetadata list"
  query :: "error + string"
  updatorInsert :: "InsertResult \<Rightarrow> error + InsertResult"
  afterInsertBroadcast :: "error option"
  commitTransaction :: "error option"
  rollbackTransaction :: "error option"
  release :: "error option"

datatype event =
    CreateQueryRunner
  | StartTransaction
  | BroadcastBeforeInsert ObjectLiteral
  | Query "fragment list" "jsvalue list"
  | UpdatorInsert
  | BroadcastAfterInsert ObjectLiteral
  | CommitTransaction
  | RollbackTransaction
  | Release

text \<open>
  Lines 90 to 113: the columns to return, and for SQL Server the declaration of the
  output table and the select that reads it.
\<close>

definition prepareReturning ::
  "Collaborators \<Rightarrow> nat \<Rightarrow> InsertQueryBuilder
     \<Rightarrow> (fragment list option \<times> fragment list option) \<times> InsertQueryBuilder" where
  "prepareReturning env n this =
     (let requested = requestedReturningColumns this;
          this1 =
            (if updateEntity this \<and> metadata this \<noteq> None
                \<and> \<not> (n > 1 \<and> driverClass (driver this) = OracleDriver)
             then this\<lparr>extraReturningColumns := insertionReturningColumns env\<rparr>
             else this);
          returningColumns =
            (if updateEntity this \<and> metadata this \<noteq> None
             then requested @ filter (\<lambda>c. c \<notin> set requested) (extraReturningColumns this1)
             else requested)
      in if returningColumns \<noteq> [] \<and> driverClass (driver this) = SqlServerDriver
         then ((Some [Raw (buildTableVariableDeclaration (driver this) ''@OutputTable''
                             returningColumns)],
                Some [Lit ''SELECT * FROM @OutputTable'']), this1)
         else ((None, None), this1))"

text \<open>
  \<^verbatim>\<open>[declareSql, insertSql, selectOutputSql].filter(s => s != null).join(";\n\n")\<close>.
\<close>

definition joinStatements ::
  "fragment list option \<Rightarrow> fragment list \<Rightarrow> fragment list option \<Rightarrow> fragment list" where
  "joinStatements declareSql insertSql selectOutputSql =
     join [Lit [CHR '';'', CHR 0x0A, CHR 0x0A]]
       ((case declareSql of None \<Rightarrow> [] | Some d \<Rightarrow> [d]) @ [insertSql] @
        (case selectOutputSql of None \<Rightarrow> [] | Some q \<Rightarrow> [q]))"

text \<open>
  The body of the \<^verbatim>\<open>try\<close> block from the compilation on (lines 83 to 154), after the
  transaction and the before insert events: the trace it adds and what it returns or
  throws.
\<close>

definition compileAndDispatch ::
  "Collaborators \<Rightarrow> bool \<Rightarrow> ObjectLiteral list \<Rightarrow> InsertQueryBuilder
     \<Rightarrow> event list \<times> (error + InsertResult)" where
  "compileAndDispatch env transactionStartedByUs valueSets this =
     (let listeners = (callListeners this \<and> metadata this \<noteq> None);
          entityUpdate = (updateEntity this \<and> metadata this \<noteq> None)
      in case prepareReturning env (length valueSets) this of
        ((declareSql, selectOutputSql), this1) \<Rightarrow>
          (case getQueryAndParameters this1 of
             Inl e \<Rightarrow> ([], Inl e)
           | Inr ((insertSql, params), this2) \<Rightarrow>
               (let sql = joinStatements declareSql insertSql selectOutputSql;
                    t1 = [Query sql params]
                in case query env of
                     Inl e \<Rightarrow> (t1, Inl e)
                   | Inr queryResult \<Rightarrow>
                       (let t2 = t1 @ (if entityUpdate then [UpdatorInsert] else [])
                        in case (if entityUpdate then updatorInsert env (insertResultFrom queryResult)
                                 else Inr (insertResultFrom queryResult)) of
                             Inl e \<Rightarrow> (t2, Inl e)
                           | Inr insertResult \<Rightarrow>
                               (let t3 = t2 @ (if listeners then map BroadcastAfterInsert valueSets
                                               else [])
                                in case (if listeners then afterInsertBroadcast env else None) of
                                     Some e \<Rightarrow> (t3, Inl e)
                                   | None \<Rightarrow>
                                       if transactionStartedByUs
                                       then (case commitTransaction env of
                                               Some e \<Rightarrow> (t3 @ [CommitTransaction], Inl e)
                                             | None \<Rightarrow> (t3 @ [CommitTransaction], Inr insertResult))
                                       else (t3, Inr insertResult))))))"

text \<open>
  The \<^verbatim>\<open>try\<close> block (lines 64 to 154): the flag \<^verbatim>\<open>transactionStartedByUs\<close> as it stands
  when the block is left, the trace, and the result or the error thrown.
\<close>

definition tryBlock ::
  "Collaborators \<Rightarrow> ObjectLiteral list \<Rightarrow> InsertQueryBuilder
     \<Rightarrow> bool \<times> event list \<times> (error + InsertResult)" where
  "tryBlock env valueSets this =
     (let wantsTransaction = (useTransaction this \<and> \<not> isTransactionActive env);
          listeners = (callListeners this \<and> metadata this \<noteq> None);
          t0 = (if wantsTransaction then [StartTransaction] else [])
      in case (if wantsTransaction then startTransaction env else None) of
           Some e \<Rightarrow> (False, t0, Inl e)
         | None \<Rightarrow>
             (let t1 = t0 @ (if listeners then map BroadcastBeforeInsert valueSets else [])
              in case (if listeners then beforeInsertBroadcast env else None) of
                   Some e \<Rightarrow> (wantsTransaction, t1, Inl e)
                 | None \<Rightarrow>
                     (case compileAndDispatch env wantsTransaction valueSets this of
                        (t2, r) \<Rightarrow> (wantsTransaction, t1 @ t2, r))))"

text \<open>
  The \<^verbatim>\<open>catch\<close> block (lines 156 to 165) and the \<^verbatim>\<open>finally\<close> block (lines 166 to 174). An
  error of the rollback is caught and dropped. An error thrown in the \<^verbatim>\<open>finally\<close> block
  is what the method throws, whatever the \<^verbatim>\<open>try\<close> and \<^verbatim>\<open>catch\<close> blocks returned or
  threw.
\<close>

definition catchBlock :: "bool \<Rightarrow> error + InsertResult \<Rightarrow> event list" where
  "catchBlock transactionStartedByUs r =
     (case r of
        Inl e \<Rightarrow> (if transactionStartedByUs then [RollbackTransaction] else [])
      | Inr insertResult \<Rightarrow> [])"

definition finallyBlock ::
  "Collaborators \<Rightarrow> error + InsertResult \<Rightarrow> event list \<times> (error + InsertResult)" where
  "finallyBlock env r =
     (if \<not> callerQueryRunner env
      then ([Release], (case release env of Some e \<Rightarrow> Inl e | None \<Rightarrow> r))
      else ([], r))"

text \<open>
  \<^verbatim>\<open>execute()\<close>: the calls it made on its collaborators, and what it returns or throws.
  \<^verbatim>\<open>getValueSets()\<close> and the test for an empty array come before the query runner is
  obtained and outside the \<^verbatim>\<open>try\<close> block.
\<close>

definition execute :: "Collaborators \<Rightarrow> InsertQueryBuilder \<Rightarrow> event list \<times> (error + InsertResult)" where
  "execute env this =
     (case getValueSets this of
        Inl e \<Rightarrow> ([], Inl e)
      | Inr valueSets \<Rightarrow>
          if length valueSets = 0 then ([], Inr newInsertResult)
          else (case tryBlock env valueSets this of
                  (transactionStartedByUs, t, r) \<Rightarrow>
                    (case finallyBlock env r of
                       (tf, r') \<Rightarrow>
                         ((if callerQueryRunner env then [] else [CreateQueryRunner]) @ t @
                          catchBlock transactionStartedByUs r @ tf, r'))))"

section \<open>Concrete drivers, tables and builders\<close>

text \<open>
  Inputs on which the theorems below are run: drivers with the capabilities of the
  engines they are named after, a table \<^verbatim>\<open>(id, name)\<close> with an auto-increment primary key,
  a table whose primary key is a generated UUID, and builders over them.
\<close>

definition exampleDriver :: "driverClass \<Rightarrow> upsertType option \<Rightarrow> bool \<Rightarrow> bool \<Rightarrow> Driver" where
  "exampleDriver dc upsert returningSupported uuidSupported =
     \<lparr>driverClass = dc, supportedUpsertType = upsert,
      isReturningSqlSupported = returningSupported,
      isUUIDGenerationSupported = uuidSupported,
      spatialTypes = [''geometry''], legacySpatialSupport = False,
      escape = (\<lambda>n. ''\"'' @ n @ ''\"''),
      preparePersistentValue = (\<lambda>v c. v),
      normalizeDefault = (\<lambda>c. ''0''),
      parametrizeValue = (\<lambda>c v. v),
      buildTableVariableDeclaration = (\<lambda>n cs. ''DECLARE '' @ n @ '' TABLE ()''),
      outBindParameter = (\<lambda>c. Str (''OUT '' @ columnType c))\<rparr>"

definition postgres :: Driver where
  "postgres = exampleDriver PostgresDriver (Some OnConflictDoUpdate) True True"

definition mysql :: Driver where
  "mysql = exampleDriver MysqlDriver (Some OnDuplicateKeyUpdate) False False"

definition sqlserver :: Driver where
  "sqlserver = exampleDriver SqlServerDriver None True True"

definition sqlite :: Driver where
  "sqlite = exampleDriver AbstractSqliteDriver (Some OnConflictDoUpdate) False False"

definition exampleColumn :: "string \<Rightarrow> ColumnMetadata" where
  "exampleColumn n =
     \<lparr>propertyName = n, propertyPath = n, databaseName = n, isPrimary = False,
      isGenerated = False, generationStrategy = None, isInsert = True, isVersion = False,
      isDiscriminator = False, columnType = ''varchar'', srid = None,
      columnDefault = Undefined\<rparr>"

definition idColumn :: ColumnMetadata where
  "idColumn = (exampleColumn ''id'')\<lparr>isPrimary := True, isGenerated := True,
                generationStrategy := Some Increment, columnType := ''int''\<rparr>"

definition uuidColumn :: ColumnMetadata where
  "uuidColumn = (exampleColumn ''id'')\<lparr>isPrimary := True, isGenerated := True,
                  generationStrategy := Some Uuid, columnType := ''uuid''\<rparr>"

definition nameColumn :: ColumnMetadata where
  "nameColumn = exampleColumn ''name''"

definition exampleBuilder :: "Driver \<Rightarrow> ColumnMetadata list \<Rightarrow> ObjectLiteral list \<Rightarrow> InsertQueryBuilder" where
  "exampleBuilder d cols valueSets =
     \<lparr>driver = d, tableName = ''\"user\"'',
      metadata = Some \<lparr>columns = cols, discriminatorValue = Undefined\<rparr>,
      comment = None, valuesSet = ValueSets valueSets, insertColumns = [],
      returning_field = None, extraReturningColumns = [], onIgnore = False,
      onConflict = None, onUpdate = None, updateEntity = False, useTransaction = True,
      callListeners = False, locallyGenerated = Map.empty, parameters = [],
      random = (\<lambda>k. k), randomUsed = 0\<rparr>"

definition exampleCollaborators :: Collaborators where
  "exampleCollaborators =
     \<lparr>callerQueryRunner = False, isTransactionActive = False, startTransaction = None,
      beforeInsertBroadcast = None, insertionReturningColumns = [],
      query = Inr ''ok'', updatorInsert = Inr, afterInsertBroadcast = None,
      commitTransaction = None, rollbackTransaction = None, release = None\<rparr>"

section \<open>Notions used in the statements\<close>

definition configOf :: "InsertQueryBuilder \<Rightarrow> InsertQueryBuilder" where
  "configOf this = this\<lparr>parameters := [], locallyGenerated := Map.empty, randomUsed := 0\<rparr>"

definition binds :: "InsertQueryBuilder \<Rightarrow> fragment list \<Rightarrow> InsertQueryBuilder \<Rightarrow> bool" where
  "binds this e this' \<longleftrightarrow>
     (\<exists>ps. parameters this' = parameters this @ ps \<and>
           placeholders e = [length (parameters this)..<length (parameters this) + length ps]) \<and>
     namedPlaceholders e = []"

definition overrides :: "ObjectLiteral list \<Rightarrow> ColumnMetadata \<Rightarrow> bool" where
  "overrides valueSets column \<longleftrightarrow>
     isPrimary column \<and> isGenerated column \<and> generationStrategy column = Some Increment \<and>
     (\<exists>valueSet \<in> set valueSets. hasValue column valueSet)"

definition identityInsertNeeded :: "InsertQueryBuilder \<Rightarrow> ObjectLiteral list \<Rightarrow> bool" where
  "identityInsertNeeded this valueSets \<longleftrightarrow>
     driverClass (driver this) = SqlServerDriver \<and>
     (case metadata this of
        None \<Rightarrow> False
      | Some m \<Rightarrow>
          (\<exists>column \<in> set (columns m). isSelectedColumn this column \<and> overrides valueSets column))"

definition returningClause :: "InsertQueryBuilder \<Rightarrow> fragment list \<Rightarrow> fragment list" where
  "returningClause this returningExpression =
     (let dc = driverClass (driver this)
      in if render returningExpression \<noteq> [] \<and>
            (dc = PostgresDriver \<or> dc = OracleDriver \<or> dc = CockroachDriver)
         then [Lit '' RETURNING ''] @ returningExpression else [])"

definition insertStatement ::
  "InsertQueryBuilder \<Rightarrow> nat \<Rightarrow> fragment list \<Rightarrow> fragment list \<Rightarrow> fragment list \<Rightarrow> fragment list
     \<Rightarrow> fragment list" where
  "insertStatement this n valuesExpression returningExpression columnsExpression upsert =
     insertIntoExpression this n valuesExpression returningExpression columnsExpression @
     upsert @ returningClause this returningExpression"

text \<open>
  The returning expression as \<^verbatim>\<open>createInsertExpression()\<close> computes it (line 319), after
  the values expression left the builder \<open>this1\<close>: none for a multi-row insert on Oracle.
\<close>

definition returningOf ::
  "InsertQueryBuilder \<Rightarrow> nat \<Rightarrow> InsertQueryBuilder \<Rightarrow> fragment list \<times> InsertQueryBuilder" where
  "returningOf this n this1 =
     (if oracleMultiRow this n then ([], this1) else createReturningExpression this1)"

definition identityInsertWrapped :: "InsertQueryBuilder \<Rightarrow> fragment list \<Rightarrow> fragment list" where
  "identityInsertWrapped this q =
     [Lit ''SET IDENTITY_INSERT '', Raw (tableName this), Lit '' ON; ''] @ q @
     [Lit ''; SET IDENTITY_INSERT '', Raw (tableName this), Lit '' OFF'']"


text \<open>
  The clause keywords a statement is searched for: the fragments \<^verbatim>\<open>ON CONFLICT DO NOTHING\<close>
  and \<^verbatim>\<open>ON DUPLICATE KEY UPDATE\<close> of the upsert clause, and the two \<^verbatim>\<open>SET IDENTITY_INSERT\<close>
  toggles. User text (identifiers, raw expressions) is \<open>Raw\<close> and never counts.
\<close>

definition toggles :: "fragment list \<Rightarrow> nat" where
  "toggles q = count_list q (Lit ''SET IDENTITY_INSERT '') +
               count_list q (Lit ''; SET IDENTITY_INSERT '')"

definition plain :: "fragment list \<Rightarrow> bool" where
  "plain q \<longleftrightarrow>
     count_list q (Lit '' ON CONFLICT DO NOTHING '') = 0 \<and>
     count_list q (Lit '' ON DUPLICATE KEY UPDATE '') = 0 \<and>
     toggles q = 0"

fun isQuery :: "event \<Rightarrow> bool" where
  "isQuery (Query sql params) = True"
| "isQuery e = False"

definition ignoreOnSqlServer :: InsertQueryBuilder where
  "ignoreOnSqlServer =
     (exampleBuilder sqlserver [idColumn, nameColumn] [[(''name'', Str ''a'')]])\<lparr>onIgnore := True\<rparr>"

definition updateOnSqlServer :: InsertQueryBuilder where
  "updateOnSqlServer =
     (exampleBuilder sqlserver [idColumn, nameColumn] [[(''name'', Str ''a'')]])
       \<lparr>onUpdate := Some \<lparr>conflict = None, updateColumns = None, overwrite = Some [''name'']\<rparr>\<rparr>"

definition explicitIdOnSqlServer :: InsertQueryBuilder where
  "explicitIdOnSqlServer =
     exampleBuilder sqlserver [idColumn, nameColumn] [[(''id'', Num 5), (''name'', Str ''a'')]]"

definition ignoreOnPostgres :: InsertQueryBuilder where
  "ignoreOnPostgres =
     (exampleBuilder postgres [idColumn, nameColumn] [[(''name'', Str ''a'')]])
       \<lparr>onIgnore := True, onConflict := Some ''(\"name\") DO NOTHING'',
        onUpdate := Some \<lparr>conflict = None, updateColumns = None, overwrite = Some [''name'']\<rparr>\<rparr>"

definition plainOnMysql :: InsertQueryBuilder where
  "plainOnMysql = exampleBuilder mysql [idColumn, nameColumn] [[(''name'', Str ''a'')]]"

text \<open>The SQL text of a compilation, or its error.\<close>

definition compiledText :: "InsertQueryBuilder \<Rightarrow> error + string" where
  "compiledText this =
     (case createInsertExpression this of Inl err \<Rightarrow> Inl err | Inr (q, this') \<Rightarrow> Inr (render q))"









text \<open>
  A generated value can be read back after the compilation: the entry of
  \<^verbatim>\<open>expressionMap.locallyGenerated\<close> for the index of the value set holds, for the column,
  a string that is not empty and that is among the parameters bound.
\<close>

definition retrievable :: "InsertQueryBuilder \<Rightarrow> nat \<Rightarrow> ColumnMetadata \<Rightarrow> bool" where
  "retrievable this valueSetIndex column =
     (case locallyGenerated this valueSetIndex of
        None \<Rightarrow> False
      | Some entity \<Rightarrow>
          (case getEntityValue column entity of
             Str u \<Rightarrow> u \<noteq> [] \<and> Str u \<in> set (parameters this)
           | _ \<Rightarrow> False))"

definition uuidOnSqlite :: InsertQueryBuilder where
  "uuidOnSqlite = exampleBuilder sqlite [uuidColumn, nameColumn]
     [[(''name'', Str ''a'')], [(''id'', Str ''given''), (''name'', Str ''b'')]]"



section \<open>Properties of the compiler\<close>

text \<open>
  The compilation changes three fields of the builder only: the parameters bound, the
  generated values, and the number of random draws made. Everything else, the
  configuration, is as it was.
\<close>

lemma createParameter_config: "createParameter v this = (e, this') \<Longrightarrow> configOf this' = configOf this"
  by (auto simp: createParameter_def configOf_def)

lemma uuid4_config: "uuid4 this = (u, this') \<Longrightarrow> configOf this' = configOf this"
  by (auto simp: uuid4_def configOf_def)

lemma regularValueExpression_config:
  "regularValueExpression c v this = (e, this') \<Longrightarrow> configOf this' = configOf this"
  by (auto simp: regularValueExpression_def Let_def configOf_def createParameter_def split: prod.splits)

lemma columnValueExpression_config:
  "columnValueExpression n i vs c this = (e, this') \<Longrightarrow> configOf this' = configOf this"
  unfolding columnValueExpression_def Let_def
  by (auto split: if_splits prod.splits jsvalue.splits
      dest!: createParameter_config uuid4_config regularValueExpression_config
      simp: configOf_def)

lemma columnsLoop_config:
  "columnsLoop n i vs k j cs this = (e, this') \<Longrightarrow> configOf this' = configOf this"
proof (induction cs arbitrary: j this e this')
  case Nil then show ?case by simp
next
  case (Cons c cs)
  then show ?case
    by (auto split: prod.splits dest!: columnValueExpression_config)
qed

lemma valueSetsLoop_config:
  "valueSetsLoop n cols i vss this = (e, this') \<Longrightarrow> configOf this' = configOf this"
proof (induction vss arbitrary: i this e this')
  case Nil then show ?case by simp
next
  case (Cons vs vss)
  then show ?case
    by (auto split: prod.splits dest!: columnsLoop_config)
qed

lemma rawValueExpression_config:
  "rawValueExpression v this = (e, this') \<Longrightarrow> configOf this' = configOf this"
  by (auto simp: rawValueExpression_def Let_def split: jsvalue.splits if_splits
      dest!: createParameter_config)

lemma keysLoop_config:
  "keysLoop n i vs k j ks this = (e, this') \<Longrightarrow> configOf this' = configOf this"
proof (induction ks arbitrary: j this e this')
  case Nil then show ?case by simp
next
  case (Cons c cs)
  then show ?case
    by (auto split: prod.splits dest!: rawValueExpression_config)
qed

lemma rawValueSetsLoop_config:
  "rawValueSetsLoop n i vss this = (e, this') \<Longrightarrow> configOf this' = configOf this"
proof (induction vss arbitrary: i this e this')
  case Nil then show ?case by simp
next
  case (Cons vs vss)
  then show ?case
    by (auto split: prod.splits dest!: keysLoop_config)
qed

lemma createValuesExpression_config:
  "createValuesExpression this = Inr (e, this') \<Longrightarrow> configOf this' = configOf this"
  unfolding createValuesExpression_def
  by (auto split: sum.splits prod.splits if_splits
      dest!: valueSetsLoop_config rawValueSetsLoop_config)

text \<open>What reads the configuration only.\<close>

lemma configOf_sel:
  "driver (configOf this) = driver this"
  "tableName (configOf this) = tableName this"
  "metadata (configOf this) = metadata this"
  "comment (configOf this) = comment this"
  "valuesSet (configOf this) = valuesSet this"
  "insertColumns (configOf this) = insertColumns this"
  "returning_field (configOf this) = returning_field this"
  "extraReturningColumns (configOf this) = extraReturningColumns this"
  "onIgnore (configOf this) = onIgnore this"
  "onConflict (configOf this) = onConflict this"
  "onUpdate (configOf this) = onUpdate this"
  "updateEntity (configOf this) = updateEntity this"
  "useTransaction (configOf this) = useTransaction this"
  "callListeners (configOf this) = callListeners this"
  by (simp_all add: configOf_def)

lemmas config_cong = if_cong option.case_cong sum.case_cong list.case_cong upsertType.case_cong
  conflictTarget.case_cong returningArg.case_cong prod.case_cong bool.case_cong

lemma getValueSets_configOf: "getValueSets (configOf this) = getValueSets this"
  by (simp add: getValueSets_def configOf_sel)

lemma isOverriding_configOf:
  "isOverridingAutoIncrementBehavior (configOf this) = isOverridingAutoIncrementBehavior this"
  by (rule ext) (simp add: isOverridingAutoIncrementBehavior_def getValueSets_configOf)

lemma isInsertedColumn_configOf: "isInsertedColumn (configOf this) = isInsertedColumn this"
  by (rule ext)
     (simp add: isInsertedColumn_def isOverriding_configOf configOf_sel cong: config_cong)

lemma getInsertedColumns_configOf: "getInsertedColumns (configOf this) = getInsertedColumns this"
  by (simp add: getInsertedColumns_def isInsertedColumn_configOf configOf_sel cong: config_cong)

lemma escapedNames_configOf: "escapedNames (configOf this) = escapedNames this"
  by (rule ext) (simp add: escapedNames_def configOf_sel)

lemma createColumnNamesExpression_configOf:
  "createColumnNamesExpression (configOf this) = createColumnNamesExpression this"
  by (simp add: createColumnNamesExpression_def getInsertedColumns_configOf getValueSets_configOf
      escapedNames_configOf configOf_sel cong: config_cong)

lemma requestedReturningColumns_configOf:
  "requestedReturningColumns (configOf this) = requestedReturningColumns this"
  by (simp add: requestedReturningColumns_def configOf_sel cong: config_cong)

lemma bindAll_config: "bindAll vs this = (ps, this') \<Longrightarrow> configOf this' = configOf this"
  by (induction vs arbitrary: this ps this')
     (auto split: prod.splits dest!: createParameter_config)

lemma createReturningExpression_config:
  "createReturningExpression this = (r, this') \<Longrightarrow> configOf this' = configOf this"
  by (auto simp: createReturningExpression_def Let_def
      split: if_splits prod.splits option.splits returningArg.splits dest!: bindAll_config)

lemma conflictTargetExpression_configOf:
  "conflictTargetExpression (configOf this) = conflictTargetExpression this"
  by (rule ext)
     (simp add: conflictTargetExpression_def escapedNames_configOf configOf_sel cong: config_cong)

lemma upsertExpression_configOf: "upsertExpression (configOf this) = upsertExpression this"
  by (simp add: upsertExpression_def conflictTargetExpression_configOf onConflictText_def
      configOf_sel cong: config_cong)

lemma isSelectedColumn_configOf: "isSelectedColumn (configOf this) = isSelectedColumn this"
  by (rule ext) (simp add: isSelectedColumn_def configOf_sel)

lemma needsIdentityInsert_configOf: "needsIdentityInsert (configOf this) = needsIdentityInsert this"
  by (simp add: needsIdentityInsert_def isOverriding_configOf isSelectedColumn_configOf
      configOf_sel cong: config_cong)

lemma oracleMultiRow_configOf: "oracleMultiRow (configOf this) = oracleMultiRow this"
  by (rule ext) (simp add: oracleMultiRow_def configOf_sel)

lemma insertIntoExpression_configOf:
  "insertIntoExpression (configOf this) = insertIntoExpression this"
  by (intro ext)
     (simp add: insertIntoExpression_def oracleMultiRow_configOf configOf_sel cong: config_cong)

lemma createComment_configOf: "createComment (configOf this) = createComment this"
  by (simp add: createComment_def configOf_sel)

text \<open>So a builder with the same configuration reads the same.\<close>

lemma same_config:
  assumes "configOf this' = configOf this"
  shows "getValueSets this' = getValueSets this"
    and "getInsertedColumns this' = getInsertedColumns this"
    and "createColumnNamesExpression this' = createColumnNamesExpression this"
    and "requestedReturningColumns this' = requestedReturningColumns this"
    and "upsertExpression this' = upsertExpression this"
    and "needsIdentityInsert this' = needsIdentityInsert this"
    and "oracleMultiRow this' = oracleMultiRow this"
    and "insertIntoExpression this' = insertIntoExpression this"
    and "createComment this' = createComment this"
    and "driver this' = driver this"
    and "tableName this' = tableName this"
    and "metadata this' = metadata this"
    and "onIgnore this' = onIgnore this"
    and "onUpdate this' = onUpdate this"
    and "updateEntity this' = updateEntity this"
    and "callListeners this' = callListeners this"
  using assms
        getValueSets_configOf [of this] getValueSets_configOf [of this']
        getInsertedColumns_configOf [of this] getInsertedColumns_configOf [of this']
        createColumnNamesExpression_configOf [of this] createColumnNamesExpression_configOf [of this']
        requestedReturningColumns_configOf [of this] requestedReturningColumns_configOf [of this']
        upsertExpression_configOf [of this] upsertExpression_configOf [of this']
        needsIdentityInsert_configOf [of this] needsIdentityInsert_configOf [of this']
        oracleMultiRow_configOf [of this] oracleMultiRow_configOf [of this']
        insertIntoExpression_configOf [of this] insertIntoExpression_configOf [of this']
        createComment_configOf [of this] createComment_configOf [of this']
        configOf_sel [of this] configOf_sel [of this']
  by simp_all

lemma placeholders_append [simp]: "placeholders (a @ b) = placeholders a @ placeholders b"
  by (induction a rule: placeholders.induct) simp_all

lemma namedPlaceholders_append [simp]:
  "namedPlaceholders (a @ b) = namedPlaceholders a @ namedPlaceholders b"
  by (induction a rule: namedPlaceholders.induct) simp_all

lemma binds_text:
  "placeholders e = [] \<Longrightarrow> namedPlaceholders e = [] \<Longrightarrow> parameters this' = parameters this
     \<Longrightarrow> binds this e this'"
  by (simp add: binds_def)






lemma placeholders_rowOpening [simp]:
  "placeholders (rowOpening this n j) = []" "namedPlaceholders (rowOpening this n j) = []"
  by (simp_all add: rowOpening_def)

lemma placeholders_columnClosing [simp]:
  "placeholders (columnClosing this n i k j) = []"
  "namedPlaceholders (columnClosing this n i k j) = []"
  by (simp_all add: columnClosing_def)








lemma createValuesExpressionE:
  assumes "createValuesExpression this = Inr (e, this')"
  obtains valueSets cols x where
    "getValueSets this = Inr valueSets" and "getInsertedColumns this = Inr cols" and
    "(if cols \<noteq> [] then valueSetsLoop (length valueSets) cols 0 valueSets this
      else rawValueSetsLoop (length valueSets) 0 valueSets this) = (x, this')" and
    "e = (if render x = ''()'' then [] else x)"
proof -
  from assms obtain valueSets where vs: "getValueSets this = Inr valueSets"
    by (auto simp: createValuesExpression_def split: sum.splits)
  from assms vs obtain cols where cols: "getInsertedColumns this = Inr cols"
    by (auto simp: createValuesExpression_def split: sum.splits)
  define r where "r = (if cols \<noteq> [] then valueSetsLoop (length valueSets) cols 0 valueSets this
      else rawValueSetsLoop (length valueSets) 0 valueSets this)"
  obtain x this1 where r: "r = (x, this1)" by (cases r)
  from assms vs cols r
  have "(if render x = ''()'' then Inr ([], this1) else Inr (x, this1)) =
        (Inr (e, this') :: error + fragment list \<times> InsertQueryBuilder)"
    by (simp add: createValuesExpression_def r_def [symmetric])
  then have "this' = this1" and "e = (if render x = ''()'' then [] else x)"
    by (auto split: if_splits)
  with vs cols r show thesis
    using that [of valueSets cols x] by (simp add: r_def)
qed


lemma isOverriding_pure:
  "getValueSets this = Inr valueSets \<Longrightarrow>
   isOverridingAutoIncrementBehavior this column = Inr (overrides valueSets column)"
  by (auto simp: isOverridingAutoIncrementBehavior_def overrides_def list_ex_iff)

lemma filterE_pure: "(\<And>x. p x = Inr (q x)) \<Longrightarrow> filterE p xs = Inr (filter q xs)"
  by (induction xs) simp_all

lemma someE_pure: "(\<And>x. p x = Inr (q x)) \<Longrightarrow> someE p xs = Inr (\<exists>x \<in> set xs. q x)"
  by (induction xs) simp_all

lemma isInsertedColumn_total:
  "getValueSets this = Inr valueSets \<Longrightarrow> \<exists>b. isInsertedColumn this column = Inr b"
  by (auto simp: isInsertedColumn_def Let_def isOverriding_pure)

lemma getInsertedColumns_total:
  assumes "getValueSets this = Inr valueSets"
  shows "\<exists>cols. getInsertedColumns this = Inr cols"
proof -
  have "\<And>x. isInsertedColumn this x = Inr (projr (isInsertedColumn this x))"
    using isInsertedColumn_total [OF assms] by (metis sum.sel(2))
  then have "\<And>xs. filterE (isInsertedColumn this) xs =
                Inr (filter (\<lambda>x. projr (isInsertedColumn this x)) xs)"
    by (rule filterE_pure)
  then show ?thesis
    by (simp add: getInsertedColumns_def split: option.splits)
qed

lemma createValuesExpression_total:
  assumes "getValueSets this = Inr valueSets"
  shows "\<exists>e this1. createValuesExpression this = Inr (e, this1)"
proof -
  from getInsertedColumns_total [OF assms] obtain cols where "getInsertedColumns this = Inr cols" ..
  with assms show ?thesis
    by (auto simp: createValuesExpression_def split: prod.splits)
qed

lemma createColumnNamesExpression_total:
  assumes "getValueSets this = Inr valueSets"
  shows "\<exists>names. createColumnNamesExpression this = Inr names"
proof -
  from getInsertedColumns_total [OF assms] obtain cols where "getInsertedColumns this = Inr cols" ..
  with assms show ?thesis
    by (auto simp: createColumnNamesExpression_def split: list.splits)
qed

lemma needsIdentityInsert_pure:
  assumes "getValueSets this = Inr valueSets"
  shows "needsIdentityInsert this = Inr (identityInsertNeeded this valueSets)"
proof -
  have "\<And>xs. someE (isOverridingAutoIncrementBehavior this) xs =
          Inr (\<exists>x \<in> set xs. overrides valueSets x)"
    by (rule someE_pure) (rule isOverriding_pure [OF assms])
  then show ?thesis
    by (auto simp: needsIdentityInsert_def identityInsertNeeded_def split: option.splits)
qed

lemma returningOf_config: "configOf (snd (returningOf this n this1)) = configOf this1"
  using createReturningExpression_config [of this1 "fst (createReturningExpression this1)"
      "snd (createReturningExpression this1)"]
  by (simp add: returningOf_def)

lemma createInsertExpression_unfold:
  assumes vs: "getValueSets this = Inr valueSets"
    and ve: "createValuesExpression this = Inr (e, this1)"
    and names: "createColumnNamesExpression this = Inr names"
  shows "createInsertExpression this =
     (case upsertExpression this of
        Inl err \<Rightarrow> Inl err
      | Inr upsert \<Rightarrow>
          Inr (if identityInsertNeeded this valueSets
               then identityInsertWrapped this
                      (insertStatement this (length valueSets) e
                         (fst (returningOf this (length valueSets) this1)) names upsert)
               else insertStatement this (length valueSets) e
                      (fst (returningOf this (length valueSets) this1)) names upsert,
               snd (returningOf this (length valueSets) this1)))"
proof -
  note c = same_config [OF createValuesExpression_config [OF ve]]
  obtain r this2 where re: "returningOf this (length valueSets) this1 = (r, this2)"
    by (cases "returningOf this (length valueSets) this1") auto
  then have re': "(if oracleMultiRow this (length valueSets) then ([], this1)
                   else createReturningExpression this1) = (r, this2)"
    by (simp add: returningOf_def)
  have "configOf this2 = configOf this"
    using returningOf_config [of this "length valueSets" this1] re
      createValuesExpression_config [OF ve] by simp
  note c2 = same_config [OF this]
  have n: "needsIdentityInsert this = Inr (identityInsertNeeded this valueSets)"
    by (rule needsIdentityInsert_pure [OF vs])
  show ?thesis
  proof (cases "upsertExpression this")
    case (Inl err)
    then show ?thesis
      by (simp add: createInsertExpression_def ve c vs re' c2 names Let_def)
  next
    case (Inr upsert)
    then show ?thesis
      by (cases "identityInsertNeeded this valueSets")
         (simp_all add: createInsertExpression_def ve c vs re' re c2 names n insertStatement_def
            returningClause_def identityInsertWrapped_def Let_def)
  qed
qed

lemma createInsertExpression_unsupported_upsert:
  assumes "getValueSets this = Inr valueSets"
    and "supportedUpsertType (driver this) = None" and "onUpdate this \<noteq> None"
  shows "createInsertExpression this =
           Inl (TypeORMError ''onUpdate is not supported by the current database driver'')"
proof -
  from createValuesExpression_total [OF assms(1)] obtain e this1 where
    ve: "createValuesExpression this = Inr (e, this1)" by blast
  from createColumnNamesExpression_total [OF assms(1)] obtain names where
    names: "createColumnNamesExpression this = Inr names" ..
  have "upsertExpression this =
          Inl (TypeORMError ''onUpdate is not supported by the current database driver'')"
    using assms(2,3) by (simp add: upsertExpression_def)
  then show ?thesis
    by (simp add: createInsertExpression_unfold [OF assms(1) ve names])
qed

lemma upsertExpression_total:
  "supportedUpsertType (driver this) \<noteq> None \<or> onUpdate this = None \<Longrightarrow>
   \<exists>upsert. upsertExpression this = Inr upsert"
  by (auto simp: upsertExpression_def split: option.splits upsertType.splits)


lemma plain_Nil [simp]: "plain []"
  by (simp add: plain_def toggles_def)

lemma plain_append [simp]: "plain (a @ b) \<longleftrightarrow> plain a \<and> plain b"
  by (auto simp: plain_def toggles_def)

lemma plain_Cons_Raw [simp]: "plain (Raw s # q) \<longleftrightarrow> plain q"
  and plain_Cons_Param [simp]: "plain (Param n # q) \<longleftrightarrow> plain q"
  and plain_Cons_Named [simp]: "plain (Named c # q) \<longleftrightarrow> plain q"
  by (simp_all add: plain_def toggles_def)

lemma plain_Cons_Lit:
  "s \<noteq> '' ON CONFLICT DO NOTHING '' \<Longrightarrow> s \<noteq> '' ON DUPLICATE KEY UPDATE '' \<Longrightarrow>
   s \<noteq> ''SET IDENTITY_INSERT '' \<Longrightarrow> s \<noteq> ''; SET IDENTITY_INSERT '' \<Longrightarrow>
   plain (Lit s # q) \<longleftrightarrow> plain q"
  by (simp add: plain_def toggles_def)

lemma plain_join:
  "plain sep \<Longrightarrow> (\<And>x. x \<in> set xs \<Longrightarrow> plain x) \<Longrightarrow> plain (join sep xs)"
  by (induction sep xs rule: join.induct) simp_all

lemma plain_escapedNames [simp]: "plain (escapedNames this names)"
  unfolding escapedNames_def by (rule plain_join) (auto simp: plain_Cons_Lit)

lemma plain_createParameter: "createParameter v this = (e, this') \<Longrightarrow> plain e"
  by (auto simp: createParameter_def)

lemma plain_regularValueExpression:
  "regularValueExpression c v this = (e, this') \<Longrightarrow> plain e"
  unfolding regularValueExpression_def Let_def
  by (auto split: prod.splits if_splits option.splits dest!: plain_createParameter
      simp: plain_Cons_Lit)

lemma plain_columnValueExpression:
  "columnValueExpression n i vs c this = (e, this') \<Longrightarrow> plain e"
  unfolding columnValueExpression_def Let_def
  by (auto split: if_splits prod.splits jsvalue.splits
      dest!: plain_createParameter plain_regularValueExpression
      simp: plain_Cons_Lit)

lemma plain_rowOpening [simp]: "plain (rowOpening this n j)"
  by (simp add: rowOpening_def plain_Cons_Lit)

lemma plain_columnClosing [simp]: "plain (columnClosing this n i k j)"
  by (simp add: columnClosing_def plain_Cons_Lit)

lemma plain_columnsLoop:
  "columnsLoop n i vs k j cs this = (e, this') \<Longrightarrow> plain e"
  by (induction cs arbitrary: j this e this')
     (auto split: prod.splits dest: plain_columnValueExpression)

lemma plain_valueSetsLoop:
  "valueSetsLoop n cols i vss this = (e, this') \<Longrightarrow> plain e"
  by (induction vss arbitrary: i this e this')
     (auto split: prod.splits dest: plain_columnsLoop)

lemma plain_rawValueExpression: "rawValueExpression v this = (e, this') \<Longrightarrow> plain e"
  unfolding rawValueExpression_def Let_def
  by (auto split: jsvalue.splits if_splits dest!: plain_createParameter simp: plain_Cons_Lit)

lemma plain_keysLoop:
  "keysLoop n i vs k j ks this = (e, this') \<Longrightarrow> plain e"
  by (induction ks arbitrary: j this e this')
     (auto split: prod.splits if_splits dest: plain_rawValueExpression simp: plain_Cons_Lit)

lemma plain_rawValueSetsLoop:
  "rawValueSetsLoop n i vss this = (e, this') \<Longrightarrow> plain e"
  by (induction vss arbitrary: i this e this')
     (auto split: prod.splits dest: plain_keysLoop)

lemma plain_createValuesExpression:
  assumes "createValuesExpression this = Inr (e, this')"
  shows "plain e"
proof -
  from assms obtain valueSets cols x where
    x: "(if cols \<noteq> [] then valueSetsLoop (length valueSets) cols 0 valueSets this
         else rawValueSetsLoop (length valueSets) 0 valueSets this) = (x, this')"
    and e: "e = (if render x = ''()'' then [] else x)"
    by (rule createValuesExpressionE)
  from x have "plain x"
    by (auto split: if_splits dest: plain_valueSetsLoop plain_rawValueSetsLoop)
  then show ?thesis by (simp add: e)
qed

lemma plain_createColumnNamesExpression:
  "createColumnNamesExpression this = Inr names \<Longrightarrow> plain names"
  by (auto simp: createColumnNamesExpression_def split: sum.splits if_splits list.splits)

lemma plain_bindAll: "bindAll vs this = (ps, this') \<Longrightarrow> p \<in> set ps \<Longrightarrow> plain p"
  by (induction vs arbitrary: this ps this')
     (auto split: prod.splits dest: plain_createParameter)

lemma plain_createReturningExpression: "createReturningExpression this = (r, this') \<Longrightarrow> plain r"
  by (auto simp: createReturningExpression_def Let_def plain_Cons_Lit
      split: if_splits prod.splits option.splits returningArg.splits
      intro!: plain_join dest: plain_bindAll)

lemma plain_returningOf [simp]: "plain (fst (returningOf this n this1))"
  using plain_createReturningExpression [of this1 "fst (createReturningExpression this1)"
      "snd (createReturningExpression this1)"]
  by (simp add: returningOf_def)

lemma plain_returningClause: "plain r \<Longrightarrow> plain (returningClause this r)"
  by (simp add: returningClause_def Let_def plain_Cons_Lit)

lemma plain_insertIntoExpression:
  "plain e \<Longrightarrow> plain r \<Longrightarrow> plain names \<Longrightarrow> plain (insertIntoExpression this n e r names)"
  by (simp add: insertIntoExpression_def Let_def plain_Cons_Lit)

lemma plain_insertStatement:
  "plain e \<Longrightarrow> plain r \<Longrightarrow> plain names \<Longrightarrow> plain upsert \<Longrightarrow>
   plain (insertStatement this n e r names upsert)"
  by (simp add: insertStatement_def plain_insertIntoExpression plain_returningClause)


lemma hd_insertIntoExpression: "hd (insertIntoExpression this n e r names @ rest) = Lit ''INSERT ''"
  by (simp add: insertIntoExpression_def Let_def)

lemma toggles_plain: "plain q \<Longrightarrow> toggles q = 0"
  by (simp add: plain_def)

lemma toggles_simps [simp]:
  "toggles [] = 0"
  "toggles (Raw s # q) = toggles q"
  "toggles (Param n # q) = toggles q"
  "toggles (Named c # q) = toggles q"
  by (simp_all add: toggles_def)

lemma toggles_Lit:
  "s \<noteq> ''SET IDENTITY_INSERT '' \<Longrightarrow> s \<noteq> ''; SET IDENTITY_INSERT '' \<Longrightarrow>
   toggles (Lit s # q) = toggles q"
  by (simp add: toggles_def)

lemma toggles_append [simp]: "toggles (a @ b) = toggles a + toggles b"
  by (simp add: toggles_def)

lemma toggles_join:
  "toggles sep = 0 \<Longrightarrow> (\<And>x. x \<in> set xs \<Longrightarrow> toggles x = 0) \<Longrightarrow> toggles (join sep xs) = 0"
  by (induction sep xs rule: join.induct) simp_all

lemma toggles_escapedNames [simp]: "toggles (escapedNames this names) = 0"
  using plain_escapedNames [of this names] by (simp add: plain_def)

lemma toggles_conflictTargetExpression [simp]: "toggles (conflictTargetExpression this c) = 0"
  by (auto simp: conflictTargetExpression_def toggles_Lit split: option.splits conflictTarget.splits)

lemma toggles_upsertExpression:
  assumes "upsertExpression this = Inr upsert"
  shows "toggles upsert = 0"
proof -
  have j: "\<And>f cols. (\<And>c. toggles (f c) = 0) \<Longrightarrow> toggles (join [Lit '', ''] (map f cols)) = 0"
    by (rule toggles_join) (auto simp: toggles_Lit)
  from assms show ?thesis
    unfolding upsertExpression_def
    by (auto split: option.splits upsertType.splits if_splits simp: toggles_Lit intro!: j)
qed



lemma prepareReturning_frame:
  assumes "prepareReturning env n this = (d, this1)"
  shows "driver this1 = driver this" "onUpdate this1 = onUpdate this"
    "valuesSet this1 = valuesSet this" "parameters this1 = parameters this"
    "onIgnore this1 = onIgnore this" "onConflict this1 = onConflict this"
  using assms by (auto simp: prepareReturning_def Let_def split: if_splits)

lemma compileAndDispatch_compile_error:
  assumes "prepareReturning env (length valueSets) this = (d, this1)"
    and "getQueryAndParameters this1 = Inl err"
  shows "compileAndDispatch env started valueSets this = ([], Inl err)"
  using assms by (cases d) (simp add: compileAndDispatch_def Let_def)

lemma getQueryAndParameters_error:
  "createInsertExpression this = Inl err \<Longrightarrow> getQueryAndParameters this = Inl err"
  by (simp add: getQueryAndParameters_def getQuery_def)

lemma tryBlock_no_query:
  assumes "\<And>started. compileAndDispatch env started valueSets this = ([], Inl err)"
  shows "\<not> list_ex isQuery (fst (snd (tryBlock env valueSets this)))"
    and "\<exists>e. snd (snd (tryBlock env valueSets this)) = Inl e"
  using assms
  by (auto simp: tryBlock_def Let_def list_ex_iff split: option.splits)

lemma execute_no_query:
  assumes "getValueSets this = Inr valueSets"
    and "\<And>started. compileAndDispatch env started valueSets this = ([], Inl err)"
  shows "\<not> list_ex isQuery (fst (execute env this))"
proof -
  obtain s t r where tb: "tryBlock env valueSets this = (s, t, r)"
    by (cases "tryBlock env valueSets this") auto
  have "\<not> list_ex isQuery t"
    using tryBlock_no_query(1) [of env valueSets this err] assms(2) tb by simp
  then show ?thesis
    by (auto simp: execute_def assms(1) tb catchBlock_def finallyBlock_def list_ex_iff
        split: sum.splits if_splits prod.splits)
qed

lemma execute_no_query_unsupported_upsert:
  assumes "getValueSets this = Inr valueSets"
    and "supportedUpsertType (driver this) = None" and "onUpdate this \<noteq> None"
  shows "\<not> list_ex isQuery (fst (execute env this))"
proof -
  obtain d this1 where p: "prepareReturning env (length valueSets) this = (d, this1)"
    by (cases "prepareReturning env (length valueSets) this") auto
  note f = prepareReturning_frame [OF p]
  have "getValueSets this1 = Inr valueSets"
    using assms(1) f by (simp add: getValueSets_def)
  then have "createInsertExpression this1 =
      Inl (TypeORMError ''onUpdate is not supported by the current database driver'')"
    by (rule createInsertExpression_unsupported_upsert) (simp_all add: f assms)
  then have "\<And>started. compileAndDispatch env started valueSets this =
      ([], Inl (TypeORMError ''onUpdate is not supported by the current database driver''))"
    by (intro compileAndDispatch_compile_error [OF p] getQueryAndParameters_error)
  then show ?thesis
    by (rule execute_no_query [OF assms(1)])
qed



lemma no_placeholders_join:
  "placeholders sep = [] \<Longrightarrow> (\<And>x. x \<in> set xs \<Longrightarrow> placeholders x = []) \<Longrightarrow>
   placeholders (join sep xs) = []"
  by (induction sep xs rule: join.induct) simp_all

lemma no_named_join:
  "namedPlaceholders sep = [] \<Longrightarrow> (\<And>x. x \<in> set xs \<Longrightarrow> namedPlaceholders x = []) \<Longrightarrow>
   namedPlaceholders (join sep xs) = []"
  by (induction sep xs rule: join.induct) simp_all

lemma text_escapedNames [simp]:
  "placeholders (escapedNames this names) = []"
  "namedPlaceholders (escapedNames this names) = []"
  unfolding escapedNames_def
  by (rule no_placeholders_join no_named_join; auto)+









lemma text_conflictTargetExpression [simp]:
  "placeholders (conflictTargetExpression this c) = []"
  "namedPlaceholders (conflictTargetExpression this c) = []"
  by (auto simp: conflictTargetExpression_def split: option.splits conflictTarget.splits)



lemma render_Nil [simp]: "render [] = []"
  by (simp add: render_def)


lemma named_unrendered:
  "render e = [] \<Longrightarrow> namedPlaceholders e = []"
  by (induction e rule: namedPlaceholders.induct) (auto simp: render_def)



lemma placeholders_identityInsertWrapped [simp]:
  "placeholders (identityInsertWrapped this q) = placeholders q"
  "namedPlaceholders (identityInsertWrapped this q) = namedPlaceholders q"
  by (simp_all add: identityInsertWrapped_def)

text \<open>Trimming white space keeps every placeholder.\<close>

lemma placeholders_trimStart [simp]: "placeholders (trimStart q) = placeholders q"
  by (induction q rule: trimStart.induct) (auto split: list.splits)

lemma named_trimStart [simp]: "namedPlaceholders (trimStart q) = namedPlaceholders q"
  by (induction q rule: trimStart.induct) (auto split: list.splits)

lemma placeholders_rev: "placeholders (rev q) = rev (placeholders q)"
  by (induction q rule: placeholders.induct) simp_all

lemma named_rev: "namedPlaceholders (rev q) = rev (namedPlaceholders q)"
  by (induction q rule: namedPlaceholders.induct) simp_all

lemma placeholders_backwards [simp]: "placeholders (map backwards q) = placeholders q"
  by (induction q rule: placeholders.induct) simp_all

lemma named_backwards [simp]: "namedPlaceholders (map backwards q) = namedPlaceholders q"
  by (induction q rule: namedPlaceholders.induct) simp_all

lemma placeholders_trim [simp]:
  "placeholders (trim q) = placeholders q" "namedPlaceholders (trim q) = namedPlaceholders q"
  by (simp_all add: trim_def trimEnd_def placeholders_rev named_rev)

lemma text_createComment [simp]:
  "placeholders (createComment this) = []" "namedPlaceholders (createComment this) = []"
  by (simp_all add: createComment_def split: option.splits)




















lemma uuidText_length: "length (uuidText r k) = 36"
  by (simp add: uuidText_def)

lemma uuidText_not_empty: "uuidText r k \<noteq> []"
  using uuidText_length [of r k] by auto

lemma getEntityValue_setEntityValue:
  "getEntityValue c (setEntityValue c' entity v) =
     (if propertyName c = propertyName c' then v else getEntityValue c entity)"
  by (simp add: getEntityValue_def setEntityValue_def update_conv')

lemma persistentValue_configOf: "persistentValue (configOf this) = persistentValue this"
  by (intro ext) (simp add: persistentValue_def configOf_sel Let_def cong: jsvalue.case_cong)

lemma persistentValue_same_config:
  "configOf this' = configOf this \<Longrightarrow> persistentValue this' = persistentValue this"
  using persistentValue_configOf [of this] persistentValue_configOf [of this'] by simp

lemma uuid_cell:
  assumes "isGenerated column" "generationStrategy column = Some Uuid"
    "\<not> isUUIDGenerationSupported (driver this)" "\<not> isVersion column" "\<not> isDiscriminator column"
    "persistentValue this column valueSet = Undefined"
  shows "columnValueExpression n i valueSet column this =
           ([Param (length (parameters this))],
            this\<lparr>randomUsed := randomUsed this + 31,
                 parameters := parameters this @ [Str (uuidText (random this) (randomUsed this))],
                 locallyGenerated := (locallyGenerated this)
                   (i \<mapsto> setEntityValue column
                          (case locallyGenerated this i of None \<Rightarrow> [] | Some entity \<Rightarrow> entity)
                          (Str (uuidText (random this) (randomUsed this))))\<rparr>)"
  using assms
  by (simp add: columnValueExpression_def Let_def uuid4_def createParameter_def)

lemma createParameter_state:
  "createParameter v this = (e, this') \<Longrightarrow> this' = this\<lparr>parameters := parameters this @ [v]\<rparr>"
  by (auto simp: createParameter_def)

lemma regularValueExpression_state:
  "regularValueExpression c v this = (e, this') \<Longrightarrow>
   \<exists>p. this' = this\<lparr>parameters := parameters this @ [p]\<rparr>"
  by (auto simp: regularValueExpression_def Let_def createParameter_def)

lemma no_uuid_cell:
  assumes "persistentValue this column valueSet \<noteq> Undefined"
    and "columnValueExpression n i valueSet column this = (e, this')"
  shows "locallyGenerated this' = locallyGenerated this \<and> randomUsed this' = randomUsed this"
  using assms
  by (auto simp: columnValueExpression_def Let_def split: if_splits jsvalue.splits
      dest!: createParameter_state regularValueExpression_state)

lemma retrievable_cell_established:
  assumes "isGenerated column" "generationStrategy column = Some Uuid"
    "\<not> isUUIDGenerationSupported (driver this)" "\<not> isVersion column" "\<not> isDiscriminator column"
    "persistentValue this column valueSet = Undefined"
    and "columnValueExpression n i valueSet column this = (e, this')"
  shows "retrievable this' i column"
  using assms(7) uuidText_not_empty [of "random this" "randomUsed this"]
  unfolding uuid_cell [OF assms(1-6)]
  by (auto simp: retrievable_def getEntityValue_setEntityValue)

lemma retrievable_cell_preserved:
  assumes "columnValueExpression n j valueSet c' this = (e, this')"
    and "retrievable this i c"
  shows "retrievable this' i c"
proof -
  have "(locallyGenerated this' = locallyGenerated this \<and>
         set (parameters this) \<subseteq> set (parameters this')) \<or>
        (\<exists>u. u \<noteq> [] \<and>
           locallyGenerated this' = (locallyGenerated this)
             (j \<mapsto> setEntityValue c'
                    (case locallyGenerated this j of None \<Rightarrow> [] | Some entity \<Rightarrow> entity) (Str u)) \<and>
           parameters this' = parameters this @ [Str u])"
  proof (cases "isGenerated c' \<and> generationStrategy c' = Some Uuid \<and>
                \<not> isUUIDGenerationSupported (driver this) \<and> \<not> isVersion c' \<and>
                \<not> isDiscriminator c' \<and> persistentValue this c' valueSet = Undefined")
    case True
    then have "columnValueExpression n j valueSet c' this =
           ([Param (length (parameters this))],
            this\<lparr>randomUsed := randomUsed this + 31,
                 parameters := parameters this @ [Str (uuidText (random this) (randomUsed this))],
                 locallyGenerated := (locallyGenerated this)
                   (j \<mapsto> setEntityValue c'
                          (case locallyGenerated this j of None \<Rightarrow> [] | Some entity \<Rightarrow> entity)
                          (Str (uuidText (random this) (randomUsed this))))\<rparr>)"
      by (intro uuid_cell) simp_all
    with assms(1) uuidText_not_empty [of "random this" "randomUsed this"] show ?thesis
      by auto
  next
    case False
    with assms(1) show ?thesis
      unfolding columnValueExpression_def Let_def
      by (auto split: if_splits jsvalue.splits
          dest!: createParameter_state regularValueExpression_state)
  qed
  then show ?thesis
  proof (elim disjE conjE exE)
    assume "locallyGenerated this' = locallyGenerated this"
      "set (parameters this) \<subseteq> set (parameters this')"
    with assms(2) show ?thesis
      by (auto simp: retrievable_def split: option.splits jsvalue.splits)
  next
    fix u
    assume "u \<noteq> []"
      "locallyGenerated this' = (locallyGenerated this)
         (j \<mapsto> setEntityValue c'
                (case locallyGenerated this j of None \<Rightarrow> [] | Some entity \<Rightarrow> entity) (Str u))"
      "parameters this' = parameters this @ [Str u]"
    with assms(2) show ?thesis
      by (auto simp: retrievable_def getEntityValue_setEntityValue
          split: option.splits jsvalue.splits if_splits)
  qed
qed

lemma retrievable_columnsLoop_preserved:
  "columnsLoop n j vs k l cs this = (e, this') \<Longrightarrow> retrievable this i c \<Longrightarrow>
   retrievable this' i c"
proof (induction cs arbitrary: l this e this')
  case Nil then show ?case by simp
next
  case (Cons c' cs)
  from Cons.prems(1) obtain e1 this1 es where
    1: "columnValueExpression n j vs c' this = (e1, this1)" and
    2: "columnsLoop n j vs k (Suc l) cs this1 = (es, this')"
    by (auto split: prod.splits)
  from Cons.IH [OF 2 retrievable_cell_preserved [OF 1 Cons.prems(2)]] show ?case .
qed

lemma retrievable_valueSetsLoop_preserved:
  "valueSetsLoop n cols j vss this = (e, this') \<Longrightarrow> retrievable this i c \<Longrightarrow>
   retrievable this' i c"
proof (induction vss arbitrary: j this e this')
  case Nil then show ?case by simp
next
  case (Cons vs vss)
  from Cons.prems(1) obtain e1 this1 es where
    1: "columnsLoop n j vs (length cols) 0 cols this = (e1, this1)" and
    2: "valueSetsLoop n cols (Suc j) vss this1 = (es, this')"
    by (auto split: prod.splits)
  from Cons.IH [OF 2 retrievable_columnsLoop_preserved [OF 1 Cons.prems(2)]] show ?case .
qed

lemma retrievable_columnsLoop_established:
  assumes "isGenerated column" "generationStrategy column = Some Uuid"
    "\<not> isVersion column" "\<not> isDiscriminator column"
  shows "columnsLoop n i vs k l cs this = (e, this') \<Longrightarrow> column \<in> set cs \<Longrightarrow>
         \<not> isUUIDGenerationSupported (driver this) \<Longrightarrow>
         persistentValue this column vs = Undefined \<Longrightarrow> retrievable this' i column"
proof (induction cs arbitrary: l this e this')
  case Nil then show ?case by simp
next
  case (Cons c' cs)
  from Cons.prems(1) obtain e1 this1 es where
    1: "columnValueExpression n i vs c' this = (e1, this1)" and
    2: "columnsLoop n i vs k (Suc l) cs this1 = (es, this')"
    by (auto split: prod.splits)
  note c = columnValueExpression_config [OF 1]
  show ?case
  proof (cases "c' = column")
    case True
    have "retrievable this1 i column"
      using retrievable_cell_established [OF assms(1,2) Cons.prems(3) assms(3,4) Cons.prems(4)] 1 True
      by simp
    from retrievable_columnsLoop_preserved [OF 2 this] show ?thesis .
  next
    case False
    with Cons.prems(2) have "column \<in> set cs" by simp
    moreover have "\<not> isUUIDGenerationSupported (driver this1)"
      using Cons.prems(3) same_config(10) [OF c] by simp
    moreover have "persistentValue this1 column vs = Undefined"
      using Cons.prems(4) persistentValue_same_config [OF c] by simp
    ultimately show ?thesis by (rule Cons.IH [OF 2])
  qed
qed

lemma retrievable_valueSetsLoop_established:
  assumes "isGenerated column" "generationStrategy column = Some Uuid"
    "\<not> isVersion column" "\<not> isDiscriminator column" "column \<in> set cols"
  shows "valueSetsLoop n cols j vss this = (e, this') \<Longrightarrow> i < length vss \<Longrightarrow>
         \<not> isUUIDGenerationSupported (driver this) \<Longrightarrow>
         persistentValue this column (vss ! i) = Undefined \<Longrightarrow> retrievable this' (j + i) column"
proof (induction vss arbitrary: j i this e this')
  case Nil then show ?case by simp
next
  case (Cons vs vss)
  from Cons.prems(1) obtain e1 this1 es where
    1: "columnsLoop n j vs (length cols) 0 cols this = (e1, this1)" and
    2: "valueSetsLoop n cols (Suc j) vss this1 = (es, this')"
    by (auto split: prod.splits)
  note c = columnsLoop_config [OF 1]
  show ?case
  proof (cases i)
    case 0
    with Cons.prems(4) have "persistentValue this column vs = Undefined" by simp
    from retrievable_columnsLoop_established [OF assms(1-4) 1 assms(5) Cons.prems(3) this]
    have "retrievable this1 j column" .
    from retrievable_valueSetsLoop_preserved [OF 2 this] 0 show ?thesis by simp
  next
    case (Suc i')
    with Cons.prems(2) have "i' < length vss" by simp
    moreover have "\<not> isUUIDGenerationSupported (driver this1)"
      using Cons.prems(3) same_config(10) [OF c] by simp
    moreover have "persistentValue this1 column (vss ! i') = Undefined"
      using Cons.prems(4) Suc persistentValue_same_config [OF c] by simp
    ultimately have "retrievable this' (Suc j + i') column" by (rule Cons.IH [OF 2])
    with Suc show ?thesis by simp
  qed
qed

lemma retrievable_createValuesExpression:
  assumes "isGenerated column" "generationStrategy column = Some Uuid"
    "\<not> isVersion column" "\<not> isDiscriminator column"
    and "\<not> isUUIDGenerationSupported (driver this)"
    and "createValuesExpression this = Inr (e, this')"
    and "getValueSets this = Inr valueSets" and "getInsertedColumns this = Inr cols"
    and "column \<in> set cols" and "i < length valueSets"
    and "persistentValue this column (valueSets ! i) = Undefined"
  shows "retrievable this' i column"
proof -
  from assms(6) obtain valueSets' cols' x where
    "getValueSets this = Inr valueSets'" "getInsertedColumns this = Inr cols'"
    "(if cols' \<noteq> [] then valueSetsLoop (length valueSets') cols' 0 valueSets' this
      else rawValueSetsLoop (length valueSets') 0 valueSets' this) = (x, this')"
    by (rule createValuesExpressionE)
  moreover from assms(9) have "cols \<noteq> []" by auto
  ultimately have "valueSetsLoop (length valueSets) cols 0 valueSets this = (x, this')"
    using assms(7,8) by simp
  from retrievable_valueSetsLoop_established [OF assms(1-4,9) this assms(10,5,11)]
  show ?thesis by simp
qed

section \<open>Claims\<close>

text \<open>
  C4. \<^verbatim>\<open>returning(...)\<close>, and \<^verbatim>\<open>output(...)\<close> which delegates to it, throws
  \<open>ReturningStatementNotSupportedError\<close> as soon as it is called on a driver without
  RETURNING / OUTPUT support: the call itself is the error, nothing is compiled or run and
  no builder is returned. On a driver with the support the call throws nothing and returns
  the builder with the request recorded and every other field as it was.
\<close>

theorem returning_checks_support_at_configuration:
  "(\<not> isReturningSqlSupported (driver this) \<longrightarrow>
      returning r this = Inl ReturningStatementNotSupportedError \<and>
      output_m r this = Inl ReturningStatementNotSupportedError) \<and>
   (isReturningSqlSupported (driver this) \<longrightarrow>
      returning r this = Inr (this\<lparr>returning_field := Some r\<rparr>) \<and>
      output_m r this = Inr (this\<lparr>returning_field := Some r\<rparr>))"
  by (simp add: returning_def output_m_def)

theorem returning_checks_support_at_configuration_witness:
  "\<not> isReturningSqlSupported (driver (exampleBuilder mysql [idColumn, nameColumn] [])) \<and>
   returning (ReturningColumns [''id''])
     (exampleBuilder mysql [idColumn, nameColumn] []) = Inl ReturningStatementNotSupportedError \<and>
   output_m (ReturningColumns [''id''])
     (exampleBuilder mysql [idColumn, nameColumn] []) = Inl ReturningStatementNotSupportedError \<and>
   isReturningSqlSupported (driver (exampleBuilder postgres [idColumn, nameColumn] [])) \<and>
   returning (ReturningColumns [''id'']) (exampleBuilder postgres [idColumn, nameColumn] []) =
     Inr ((exampleBuilder postgres [idColumn, nameColumn] [])
            \<lparr>returning_field := Some (ReturningColumns [''id''])\<rparr>)"
  using returning_checks_support_at_configuration
          [of "exampleBuilder mysql [idColumn, nameColumn] []" "ReturningColumns [''id'']"]
        returning_checks_support_at_configuration
          [of "exampleBuilder postgres [idColumn, nameColumn] []" "ReturningColumns [''id'']"]
  by (simp add: exampleBuilder_def mysql_def postgres_def exampleDriver_def)

text \<open>
  C2. When \<^verbatim>\<open>execute()\<close> is called with an empty array of value sets, it returns the
  outcome without effect (\<^verbatim>\<open>new InsertResult()\<close>) and its trace is empty: it creates no
  query runner, starts no transaction, broadcasts no event, sends no query and
  releases nothing, whatever the collaborators would have done.
\<close>

theorem execute_empty_value_sets:
  "valuesSet this = ValueSets [] \<Longrightarrow> execute env this = ([], Inr newInsertResult)"
  by (simp add: execute_def getValueSets_def)

theorem execute_empty_value_sets_witness:
  "valuesSet (exampleBuilder postgres [idColumn, nameColumn] []) = ValueSets [] \<and>
   execute (exampleCollaborators\<lparr>query := Inl (ExternalError ''no connection'')\<rparr>)
     (exampleBuilder postgres [idColumn, nameColumn] []) =
     ([], Inr \<lparr>identifiers = [], generatedMaps = [], raw = None\<rparr>)"
  using execute_empty_value_sets
          [of "exampleBuilder postgres [idColumn, nameColumn] []"
              "exampleCollaborators\<lparr>query := Inl (ExternalError ''no connection'')\<rparr>"]
  by (simp add: exampleBuilder_def newInsertResult_def)

text \<open>
  C3 (as the code has it). On a driver that declares no upsert support, with value sets
  given, a structured update policy (\<^verbatim>\<open>orUpdate\<close>) makes the compilation of the INSERT
  expression fail with a \<open>TypeORMError\<close> whose message is
  \<^verbatim>\<open>onUpdate is not supported by the current database driver\<close>, and \<^verbatim>\<open>execute()\<close> sends no
  query. Without an update policy the compilation raises no error, whatever the ignore
  policy and the raw conflict clause are.
\<close>

theorem unsupported_upsert_fails_for_update_policy_only:
  assumes "supportedUpsertType (driver this) = None"
    and "getValueSets this = Inr valueSets"
  shows "(onUpdate this \<noteq> None \<longrightarrow>
            createInsertExpression this =
              Inl (TypeORMError ''onUpdate is not supported by the current database driver'') \<and>
            \<not> list_ex isQuery (fst (execute env this))) \<and>
         (onUpdate this = None \<longrightarrow>
            (case createInsertExpression this of Inl err \<Rightarrow> False | Inr compiled \<Rightarrow> True))"
proof -
  from createValuesExpression_total [OF assms(2)] obtain e this1 where
    ve: "createValuesExpression this = Inr (e, this1)" by blast
  from createColumnNamesExpression_total [OF assms(2)] obtain names where
    names: "createColumnNamesExpression this = Inr names" ..
  have "onUpdate this = None \<Longrightarrow> upsertExpression this = Inr []"
    using assms(1) by (simp add: upsertExpression_def)
  then show ?thesis
    using createInsertExpression_unsupported_upsert [OF assms(2,1)]
          execute_no_query_unsupported_upsert [OF assms(2,1)]
    by (auto simp: createInsertExpression_unfold [OF assms(2) ve names])
qed


theorem unsupported_upsert_fails_for_update_policy_only_witness:
  "supportedUpsertType (driver updateOnSqlServer) = None \<and>
   getValueSets updateOnSqlServer = Inr [[(''name'', Str ''a'')]] \<and>
   onUpdate updateOnSqlServer \<noteq> None \<and>
   createInsertExpression updateOnSqlServer =
     Inl (TypeORMError ''onUpdate is not supported by the current database driver'') \<and>
   \<not> list_ex isQuery (fst (execute exampleCollaborators updateOnSqlServer)) \<and>
   execute exampleCollaborators updateOnSqlServer =
     ([CreateQueryRunner, StartTransaction, RollbackTransaction, Release],
      Inl (TypeORMError ''onUpdate is not supported by the current database driver''))"
proof -
  have h1: "supportedUpsertType (driver updateOnSqlServer) = None"
    by (simp add: updateOnSqlServer_def exampleBuilder_def sqlserver_def exampleDriver_def)
  have h2: "getValueSets updateOnSqlServer = Inr [[(''name'', Str ''a'')]]"
    by (simp add: updateOnSqlServer_def exampleBuilder_def getValueSets_def)
  have h3: "onUpdate updateOnSqlServer \<noteq> None"
    by (simp add: updateOnSqlServer_def exampleBuilder_def)
  have e: "execute exampleCollaborators updateOnSqlServer =
     ([CreateQueryRunner, StartTransaction, RollbackTransaction, Release],
      Inl (TypeORMError ''onUpdate is not supported by the current database driver''))"
    by code_simp
  from unsupported_upsert_fails_for_update_policy_only [OF h1 h2, of exampleCollaborators] h3
  have "createInsertExpression updateOnSqlServer =
          Inl (TypeORMError ''onUpdate is not supported by the current database driver'') \<and>
        \<not> list_ex isQuery (fst (execute exampleCollaborators updateOnSqlServer))"
    by simp
  with h1 h2 h3 e show ?thesis by simp
qed

text \<open>
  The claim as the spec states it fails for an ignore policy: on a driver without upsert
  support, \<^verbatim>\<open>orIgnore()\<close> raises no error, and the plain INSERT is sent.
\<close>

theorem ignore_on_unsupported_dialect_counterexample:
  "supportedUpsertType (driver ignoreOnSqlServer) = None \<and> onIgnore ignoreOnSqlServer \<and>
   execute exampleCollaborators ignoreOnSqlServer =
     ([CreateQueryRunner, StartTransaction,
       Query [Lit ''INSERT '', Lit ''INTO '', Raw ''\"user\"'', Lit ''('', Raw ''\"name\"'',
              Lit '')'', Lit '' VALUES '', Lit ''('', Param 0, Lit '')''] [Str ''a''],
       CommitTransaction, Release],
      Inr \<lparr>identifiers = [], generatedMaps = [], raw = Some ''ok''\<rparr>)"
  by code_simp

text \<open>
  C6. On SQL Server, when the INSERT expression compiles, the statement is the INSERT
  between \<^verbatim>\<open>SET IDENTITY_INSERT table ON;\<close> and \<^verbatim>\<open>; SET IDENTITY_INSERT table OFF\<close> exactly
  when the table has metadata and some selected column (in the allow-list if there is
  one, else insertable) is a primary, generated, auto-increment column to which some
  value set gives a value other than \<^verbatim>\<open>undefined\<close> and \<^verbatim>\<open>null\<close>. Otherwise the statement
  begins with \<^verbatim>\<open>INSERT\<close> and holds no toggle.
\<close>

theorem identity_insert_wrapper:
  assumes "driverClass (driver this) = SqlServerDriver"
    and "getValueSets this = Inr valueSets"
    and "createInsertExpression this = Inr (q, this')"
  shows "if identityInsertNeeded this valueSets
         then (\<exists>inner. q = identityInsertWrapped this inner \<and>
                       hd inner = Lit ''INSERT '' \<and> toggles inner = 0)
         else hd q = Lit ''INSERT '' \<and> toggles q = 0"
proof -
  from createValuesExpression_total [OF assms(2)] obtain e this1 where
    ve: "createValuesExpression this = Inr (e, this1)" by blast
  from createColumnNamesExpression_total [OF assms(2)] obtain names where
    names: "createColumnNamesExpression this = Inr names" ..
  from assms(3) obtain upsert where u: "upsertExpression this = Inr upsert"
    by (auto simp: createInsertExpression_unfold [OF assms(2) ve names] split: sum.splits)
  let ?r = "fst (returningOf this (length valueSets) this1)"
  let ?stmt = "insertStatement this (length valueSets) e ?r names upsert"
  have q: "q = (if identityInsertNeeded this valueSets then identityInsertWrapped this ?stmt
                else ?stmt)"
    using assms(3) by (simp add: createInsertExpression_unfold [OF assms(2) ve names] u)
  have "plain (insertIntoExpression this (length valueSets) e ?r names)"
    by (rule plain_insertIntoExpression)
       (rule plain_createValuesExpression [OF ve], rule plain_returningOf,
        rule plain_createColumnNamesExpression [OF names])
  then have t: "toggles ?stmt = 0"
    using toggles_upsertExpression [OF u] plain_returningClause [OF plain_returningOf, of this]
    by (simp add: insertStatement_def plain_def)
  have h: "hd ?stmt = Lit ''INSERT ''"
    unfolding insertStatement_def by (rule hd_insertIntoExpression)
  show ?thesis
    using q t h by auto
qed


theorem identity_insert_wrapper_witness:
  "driverClass (driver explicitIdOnSqlServer) = SqlServerDriver \<and>
   getValueSets explicitIdOnSqlServer = Inr [[(''id'', Num 5), (''name'', Str ''a'')]] \<and>
   identityInsertNeeded explicitIdOnSqlServer [[(''id'', Num 5), (''name'', Str ''a'')]] \<and>
   compiledText explicitIdOnSqlServer =
     Inr (''SET IDENTITY_INSERT \"user\" ON; '' @
          ''INSERT INTO \"user\"(\"id\", \"name\") VALUES (:orm_param_0, :orm_param_1)'' @
          ''; SET IDENTITY_INSERT \"user\" OFF'') \<and>
   \<not> identityInsertNeeded ignoreOnSqlServer [[(''name'', Str ''a'')]] \<and>
   compiledText ignoreOnSqlServer = Inr ''INSERT INTO \"user\"(\"name\") VALUES (:orm_param_0)''"
proof -
  have h1: "driverClass (driver explicitIdOnSqlServer) = SqlServerDriver"
    by (simp add: explicitIdOnSqlServer_def exampleBuilder_def sqlserver_def exampleDriver_def)
  have h2: "getValueSets explicitIdOnSqlServer = Inr [[(''id'', Num 5), (''name'', Str ''a'')]]"
    by (simp add: explicitIdOnSqlServer_def exampleBuilder_def getValueSets_def)
  obtain q this' where h3: "createInsertExpression explicitIdOnSqlServer = Inr (q, this')"
    using createValuesExpression_total [OF h2] createColumnNamesExpression_total [OF h2]
      createInsertExpression_unfold [OF h2]
      upsertExpression_total [of explicitIdOnSqlServer]
    by (fastforce simp: explicitIdOnSqlServer_def exampleBuilder_def)
  have n: "identityInsertNeeded explicitIdOnSqlServer [[(''id'', Num 5), (''name'', Str ''a'')]]"
    by code_simp
  from identity_insert_wrapper [OF h1 h2 h3] n
  have "\<exists>inner. q = identityInsertWrapped explicitIdOnSqlServer inner" by auto
  moreover have "compiledText explicitIdOnSqlServer =
     Inr (''SET IDENTITY_INSERT \"user\" ON; '' @
          ''INSERT INTO \"user\"(\"id\", \"name\") VALUES (:orm_param_0, :orm_param_1)'' @
          ''; SET IDENTITY_INSERT \"user\" OFF'')"
    by code_simp
  moreover have "\<not> identityInsertNeeded ignoreOnSqlServer [[(''name'', Str ''a'')]]"
    by code_simp
  moreover have "compiledText ignoreOnSqlServer =
      Inr ''INSERT INTO \"user\"(\"name\") VALUES (:orm_param_0)''"
    by code_simp
  ultimately show ?thesis using h1 h2 n by simp
qed

text \<open>
  C8. On a driver whose upsert type is \<^verbatim>\<open>on-conflict-do-update\<close>, with the ignore policy
  set and value sets given, the upsert clause is \<^verbatim>\<open>ON CONFLICT DO NOTHING\<close> and nothing
  else, whatever raw conflict clause and update policy are configured beside it: the
  INSERT expression compiles, and the statement is the INSERT text, this clause, and the
  RETURNING clause if there is one (inside the identity-insert toggles if they are
  needed). So among the fragments the builder wrote there is exactly one
  \<^verbatim>\<open>ON CONFLICT DO NOTHING\<close> and no \<^verbatim>\<open>ON DUPLICATE KEY UPDATE\<close>.
\<close>

theorem on_conflict_do_nothing_once:
  assumes "supportedUpsertType (driver this) = Some OnConflictDoUpdate"
    and "onIgnore this"
    and "getValueSets this = Inr valueSets"
  shows "upsertExpression this = Inr [Lit '' ON CONFLICT DO NOTHING ''] \<and>
         (case (createValuesExpression this, createColumnNamesExpression this,
                createInsertExpression this) of
            (Inr (valuesExpression, this1), Inr columnsExpression, Inr (q, this')) \<Rightarrow>
              (let n = length valueSets;
                   returningExpression = fst (returningOf this n this1);
                   statement =
                     insertIntoExpression this n valuesExpression returningExpression
                       columnsExpression @
                     [Lit '' ON CONFLICT DO NOTHING ''] @
                     returningClause this returningExpression
               in q = (if identityInsertNeeded this valueSets
                       then identityInsertWrapped this statement else statement)) \<and>
              count_list q (Lit '' ON CONFLICT DO NOTHING '') = 1 \<and>
              count_list q (Lit '' ON DUPLICATE KEY UPDATE '') = 0
          | _ \<Rightarrow> False)"
proof -
  from createValuesExpression_total [OF assms(3)] obtain e this1 where
    ve: "createValuesExpression this = Inr (e, this1)" by blast
  from createColumnNamesExpression_total [OF assms(3)] obtain names where
    names: "createColumnNamesExpression this = Inr names" ..
  have u: "upsertExpression this = Inr [Lit '' ON CONFLICT DO NOTHING '']"
    using assms(1,2) by (simp add: upsertExpression_def)
  let ?r = "fst (returningOf this (length valueSets) this1)"
  have p: "plain (insertIntoExpression this (length valueSets) e ?r names)"
    by (rule plain_insertIntoExpression)
       (rule plain_createValuesExpression [OF ve], rule plain_returningOf,
        rule plain_createColumnNamesExpression [OF names])
  have r: "plain (returningClause this ?r)"
    by (rule plain_returningClause [OF plain_returningOf])
  show ?thesis
    using p r
    by (simp add: createInsertExpression_unfold [OF assms(3) ve names] ve names u
        insertStatement_def identityInsertWrapped_def plain_def Let_def)
qed

theorem on_conflict_do_nothing_once_witness:
  "supportedUpsertType (driver ignoreOnPostgres) = Some OnConflictDoUpdate \<and>
   onIgnore ignoreOnPostgres \<and>
   onConflict ignoreOnPostgres = Some ''(\"name\") DO NOTHING'' \<and>
   onUpdate ignoreOnPostgres \<noteq> None \<and>
   getValueSets ignoreOnPostgres = Inr [[(''name'', Str ''a'')]] \<and>
   upsertExpression ignoreOnPostgres = Inr [Lit '' ON CONFLICT DO NOTHING ''] \<and>
   createInsertExpression ignoreOnPostgres \<noteq>
     Inl (TypeORMError ''onUpdate is not supported by the current database driver'') \<and>
   compiledText ignoreOnPostgres =
     Inr ''INSERT INTO \"user\"(\"name\") VALUES (:orm_param_0) ON CONFLICT DO NOTHING ''"
proof -
  have h1: "supportedUpsertType (driver ignoreOnPostgres) = Some OnConflictDoUpdate"
    by (simp add: ignoreOnPostgres_def exampleBuilder_def postgres_def exampleDriver_def)
  have h2: "onIgnore ignoreOnPostgres"
    by (simp add: ignoreOnPostgres_def exampleBuilder_def)
  have h3: "getValueSets ignoreOnPostgres = Inr [[(''name'', Str ''a'')]]"
    by (simp add: ignoreOnPostgres_def exampleBuilder_def getValueSets_def)
  have h4: "onConflict ignoreOnPostgres = Some ''(\"name\") DO NOTHING'' \<and>
            onUpdate ignoreOnPostgres \<noteq> None"
    by (simp add: ignoreOnPostgres_def exampleBuilder_def)
  have t: "compiledText ignoreOnPostgres =
     Inr ''INSERT INTO \"user\"(\"name\") VALUES (:orm_param_0) ON CONFLICT DO NOTHING ''"
    by code_simp
  then have n: "createInsertExpression ignoreOnPostgres \<noteq>
     Inl (TypeORMError ''onUpdate is not supported by the current database driver'')"
    by (auto simp: compiledText_def)
  from on_conflict_do_nothing_once [OF h1 h2 h3]
  have "upsertExpression ignoreOnPostgres = Inr [Lit '' ON CONFLICT DO NOTHING '']" by simp
  with h1 h2 h3 h4 t n show ?thesis by simp
qed

text \<open>
  C9. \<^verbatim>\<open>orUpdate(...)\<close> throws on no driver and for no argument: it returns the builder
  with the update policy recorded and nothing else changed. On a driver without upsert
  support the error comes only later, when the INSERT expression of that builder is
  compiled (with value sets given); \<^verbatim>\<open>returning(...)\<close>, against that, fails in the call
  itself (C4).
\<close>

theorem orUpdate_never_throws:
  "(case orUpdate statementOrOverwrite conflictTarget this of
      Inl err \<Rightarrow> False
    | Inr this' \<Rightarrow> onUpdate this' \<noteq> None \<and> this' = this\<lparr>onUpdate := onUpdate this'\<rparr> \<and>
        (supportedUpsertType (driver this) = None \<longrightarrow> getValueSets this \<noteq> Inl InsertValuesMissingError \<longrightarrow>
           createInsertExpression this' =
             Inl (TypeORMError ''onUpdate is not supported by the current database driver'')))"
proof -
  have "createInsertExpression (this\<lparr>onUpdate := Some u\<rparr>) =
          Inl (TypeORMError ''onUpdate is not supported by the current database driver'')"
    if "supportedUpsertType (driver this) = None"
      and "getValueSets this \<noteq> Inl InsertValuesMissingError" for u
  proof -
    from that(2) obtain vs where "getValueSets this = Inr vs"
      by (auto simp: getValueSets_def split: valuesSet.splits)
    then have "getValueSets (this\<lparr>onUpdate := Some u\<rparr>) = Inr vs"
      by (simp add: getValueSets_def)
    then show ?thesis
      by (rule createInsertExpression_unsupported_upsert) (simp_all add: that(1))
  qed
  then show ?thesis
    by (cases statementOrOverwrite) simp_all
qed

theorem orUpdate_never_throws_witness:
  "supportedUpsertType (driver ignoreOnSqlServer) = None \<and>
   getValueSets ignoreOnSqlServer \<noteq> Inl InsertValuesMissingError \<and>
   (case orUpdate (Overwrite [''name'']) None ignoreOnSqlServer of
      Inl err \<Rightarrow> False
    | Inr this' \<Rightarrow>
        onUpdate this' =
          Some \<lparr>conflict = None, updateColumns = None, overwrite = Some [''name'']\<rparr> \<and>
        createInsertExpression this' =
          Inl (TypeORMError ''onUpdate is not supported by the current database driver''))"
proof -
  have h1: "supportedUpsertType (driver ignoreOnSqlServer) = None"
    by (simp add: ignoreOnSqlServer_def exampleBuilder_def sqlserver_def exampleDriver_def)
  have h2: "getValueSets ignoreOnSqlServer \<noteq> Inl InsertValuesMissingError"
    by (simp add: ignoreOnSqlServer_def exampleBuilder_def getValueSets_def)
  from orUpdate_never_throws [where statementOrOverwrite = "Overwrite [''name'']"
       and conflictTarget = None and this = ignoreOnSqlServer] h1 h2
  show ?thesis by simp
qed

text \<open>
  C10. \<^verbatim>\<open>orIgnore(statement)\<close> keeps only the truth value of a string argument: for every
  string that is not empty the builder it returns is the builder \<^verbatim>\<open>orIgnore(true)\<close>
  returns, so the INSERT expression compiled from it and what \<^verbatim>\<open>execute()\<close> does with it
  are the same for every such string and nothing of the string reaches the SQL; and
  \<^verbatim>\<open>orIgnore("")\<close> switches the ignore policy off, as \<^verbatim>\<open>orIgnore(false)\<close> does.
\<close>

theorem orIgnore_string_is_coerced:
  "(s \<noteq> [] \<longrightarrow> orIgnore (IgnoreString s) this = orIgnore (IgnoreBool True) this \<and>
               createInsertExpression (orIgnore (IgnoreString s) this) =
               createInsertExpression (orIgnore (IgnoreBool True) this) \<and>
               execute env (orIgnore (IgnoreString s) this) =
               execute env (orIgnore (IgnoreBool True) this)) \<and>
   orIgnore (IgnoreString []) this = this\<lparr>onIgnore := False\<rparr> \<and>
   orIgnore (IgnoreString []) this = orIgnore (IgnoreBool False) this"
  by (simp add: orIgnore_def)

theorem orIgnore_string_is_coerced_witness:
  "''DO NOTHING'' \<noteq> [] \<and>
   orIgnore (IgnoreString ''DO NOTHING'') plainOnMysql = orIgnore (IgnoreBool True) plainOnMysql \<and>
   compiledText (orIgnore (IgnoreString ''DO NOTHING'') plainOnMysql) =
     Inr ''INSERT  IGNORE INTO \"user\"(\"id\", \"name\") VALUES (DEFAULT, :orm_param_0)'' \<and>
   compiledText (orIgnore (IgnoreBool True) plainOnMysql) =
     Inr ''INSERT  IGNORE INTO \"user\"(\"id\", \"name\") VALUES (DEFAULT, :orm_param_0)'' \<and>
   compiledText (orIgnore (IgnoreString []) plainOnMysql) =
     Inr ''INSERT INTO \"user\"(\"id\", \"name\") VALUES (DEFAULT, :orm_param_0)''"
proof -
  have 1: "compiledText (orIgnore (IgnoreBool True) plainOnMysql) =
     Inr ''INSERT  IGNORE INTO \"user\"(\"id\", \"name\") VALUES (DEFAULT, :orm_param_0)''"
    by code_simp
  have 2: "compiledText (orIgnore (IgnoreString []) plainOnMysql) =
     Inr ''INSERT INTO \"user\"(\"id\", \"name\") VALUES (DEFAULT, :orm_param_0)''"
    by code_simp
  from orIgnore_string_is_coerced [of "''DO NOTHING''" plainOnMysql exampleCollaborators] 1 2
  show ?thesis by simp
qed







text \<open>
  C7. For a generated column with strategy \<^verbatim>\<open>uuid\<close>, on a driver that cannot generate UUIDs
  itself, the column being neither the version nor the discriminator column (these two
  cases come first in the chain): when the value of the column in a value set, as the
  driver normalizes it, is \<^verbatim>\<open>undefined\<close>, the compilation draws a UUID that is not empty from
  random draws no earlier call has read, binds it as the next parameter, writes the
  placeholder of that parameter as the expression of the column, and stores the UUID
  under the column in \<^verbatim>\<open>locallyGenerated\<close> at the index of the value set, where it can be read
  back; it can still be read back after the whole VALUES expression is compiled. When
  the value is anything else, nothing is drawn and \<^verbatim>\<open>locallyGenerated\<close> stays as it was.
\<close>

theorem uuid_generated_bound_and_cached:
  assumes "isGenerated column" and "generationStrategy column = Some Uuid"
    and "\<not> isUUIDGenerationSupported (driver this)"
    and "\<not> isVersion column" and "\<not> isDiscriminator column"
  shows "(persistentValue this column valueSet = Undefined \<longrightarrow>
            uuidText (random this) (randomUsed this) \<noteq> [] \<and>
            columnValueExpression n i valueSet column this =
              ([Param (length (parameters this))],
               this\<lparr>randomUsed := randomUsed this + 31,
                    parameters := parameters this @ [Str (uuidText (random this) (randomUsed this))],
                    locallyGenerated := (locallyGenerated this)
                      (i \<mapsto> setEntityValue column
                             (case locallyGenerated this i of None \<Rightarrow> [] | Some entity \<Rightarrow> entity)
                             (Str (uuidText (random this) (randomUsed this))))\<rparr>) \<and>
            retrievable (snd (columnValueExpression n i valueSet column this)) i column) \<and>
         (persistentValue this column valueSet \<noteq> Undefined \<longrightarrow>
            locallyGenerated (snd (columnValueExpression n i valueSet column this)) =
              locallyGenerated this \<and>
            randomUsed (snd (columnValueExpression n i valueSet column this)) = randomUsed this) \<and>
         (createValuesExpression this = Inr (e, this') \<and> getValueSets this = Inr valueSets \<and>
          getInsertedColumns this = Inr cols \<and> column \<in> set cols \<and> j < length valueSets \<and>
          persistentValue this column (valueSets ! j) = Undefined \<longrightarrow>
            retrievable this' j column)"
proof (intro conjI impI)
  assume u: "persistentValue this column valueSet = Undefined"
  show "uuidText (random this) (randomUsed this) \<noteq> []" by (rule uuidText_not_empty)
  show c: "columnValueExpression n i valueSet column this =
              ([Param (length (parameters this))],
               this\<lparr>randomUsed := randomUsed this + 31,
                    parameters := parameters this @ [Str (uuidText (random this) (randomUsed this))],
                    locallyGenerated := (locallyGenerated this)
                      (i \<mapsto> setEntityValue column
                             (case locallyGenerated this i of None \<Rightarrow> [] | Some entity \<Rightarrow> entity)
                             (Str (uuidText (random this) (randomUsed this))))\<rparr>)"
    by (rule uuid_cell [OF assms u])
  show "retrievable (snd (columnValueExpression n i valueSet column this)) i column"
    using retrievable_cell_established [OF assms u,
        of n i "fst (columnValueExpression n i valueSet column this)"
          "snd (columnValueExpression n i valueSet column this)"]
    by simp
next
  assume "persistentValue this column valueSet \<noteq> Undefined"
  from no_uuid_cell [OF this, of n i "fst (columnValueExpression n i valueSet column this)"
      "snd (columnValueExpression n i valueSet column this)"]
  show "locallyGenerated (snd (columnValueExpression n i valueSet column this)) =
          locallyGenerated this"
    and "randomUsed (snd (columnValueExpression n i valueSet column this)) = randomUsed this"
    by simp_all
next
  assume "createValuesExpression this = Inr (e, this') \<and> getValueSets this = Inr valueSets \<and>
          getInsertedColumns this = Inr cols \<and> column \<in> set cols \<and> j < length valueSets \<and>
          persistentValue this column (valueSets ! j) = Undefined"
  then show "retrievable this' j column"
    using retrievable_createValuesExpression [OF assms(1,2,4,5,3)] by blast
qed


theorem uuid_generated_bound_and_cached_witness:
  "isGenerated uuidColumn \<and> generationStrategy uuidColumn = Some Uuid \<and>
   \<not> isUUIDGenerationSupported (driver uuidOnSqlite) \<and>
   \<not> isVersion uuidColumn \<and> \<not> isDiscriminator uuidColumn \<and>
   persistentValue uuidOnSqlite uuidColumn [(''name'', Str ''a'')] = Undefined \<and>
   persistentValue uuidOnSqlite uuidColumn [(''id'', Str ''given''), (''name'', Str ''b'')] =
     Str ''given'' \<and>
   fst (columnValueExpression 2 0 [(''name'', Str ''a'')] uuidColumn uuidOnSqlite) = [Param 0] \<and>
   parameters (snd (columnValueExpression 2 0 [(''name'', Str ''a'')] uuidColumn uuidOnSqlite)) =
     [Str ''01234567-89ab-4cde-f012-3456789abcde''] \<and>
   retrievable (snd (columnValueExpression 2 0 [(''name'', Str ''a'')] uuidColumn uuidOnSqlite))
     0 uuidColumn \<and>
   locallyGenerated
     (snd (columnValueExpression 2 1 [(''id'', Str ''given''), (''name'', Str ''b'')]
             uuidColumn uuidOnSqlite)) = locallyGenerated uuidOnSqlite \<and>
   (case createValuesExpression uuidOnSqlite of
      Inl err \<Rightarrow> False
    | Inr (e, this') \<Rightarrow>
        render e = ''(:orm_param_0, :orm_param_1), (:orm_param_2, :orm_param_3)'' \<and>
        parameters this' =
          [Str ''01234567-89ab-4cde-f012-3456789abcde'', Str ''a'', Str ''given'', Str ''b''] \<and>
        locallyGenerated this' 0 = Some [(''id'', Str ''01234567-89ab-4cde-f012-3456789abcde'')] \<and>
        locallyGenerated this' 1 = None \<and>
        retrievable this' 0 uuidColumn)"
proof -
  have h: "isGenerated uuidColumn" "generationStrategy uuidColumn = Some Uuid"
    "\<not> isUUIDGenerationSupported (driver uuidOnSqlite)"
    "\<not> isVersion uuidColumn" "\<not> isDiscriminator uuidColumn"
    by (simp_all add: uuidColumn_def exampleColumn_def uuidOnSqlite_def exampleBuilder_def
        sqlite_def exampleDriver_def)
  have p: "persistentValue uuidOnSqlite uuidColumn [(''name'', Str ''a'')] = Undefined"
    "persistentValue uuidOnSqlite uuidColumn [(''id'', Str ''given''), (''name'', Str ''b'')] =
       Str ''given''"
    by code_simp+
  have u: "uuidText (random uuidOnSqlite) (randomUsed uuidOnSqlite) =
             ''01234567-89ab-4cde-f012-3456789abcde''"
    by code_simp
  have q: "parameters uuidOnSqlite = []"
    by (simp add: uuidOnSqlite_def exampleBuilder_def)
  have c: "case createValuesExpression uuidOnSqlite of
      Inl err \<Rightarrow> False
    | Inr (e, this') \<Rightarrow>
        render e = ''(:orm_param_0, :orm_param_1), (:orm_param_2, :orm_param_3)'' \<and>
        parameters this' =
          [Str ''01234567-89ab-4cde-f012-3456789abcde'', Str ''a'', Str ''given'', Str ''b''] \<and>
        locallyGenerated this' 0 = Some [(''id'', Str ''01234567-89ab-4cde-f012-3456789abcde'')] \<and>
        locallyGenerated this' 1 = None \<and>
        retrievable this' 0 uuidColumn"
    by code_simp
  note t1 = uuid_generated_bound_and_cached [OF h, where valueSet = "[(''name'', Str ''a'')]"
      and n = 2 and i = 0]
  note t2 = uuid_generated_bound_and_cached [OF h,
      where valueSet = "[(''id'', Str ''given''), (''name'', Str ''b'')]" and n = 2 and i = 1]
  from t1 p(1)
  have a: "columnValueExpression 2 0 [(''name'', Str ''a'')] uuidColumn uuidOnSqlite =
      ([Param (length (parameters uuidOnSqlite))],
       uuidOnSqlite\<lparr>randomUsed := randomUsed uuidOnSqlite + 31,
          parameters := parameters uuidOnSqlite @
            [Str (uuidText (random uuidOnSqlite) (randomUsed uuidOnSqlite))],
          locallyGenerated := (locallyGenerated uuidOnSqlite)
            (0 \<mapsto> setEntityValue uuidColumn
                   (case locallyGenerated uuidOnSqlite 0 of None \<Rightarrow> [] | Some entity \<Rightarrow> entity)
                   (Str (uuidText (random uuidOnSqlite) (randomUsed uuidOnSqlite))))\<rparr>)"
    and r: "retrievable
      (snd (columnValueExpression 2 0 [(''name'', Str ''a'')] uuidColumn uuidOnSqlite)) 0 uuidColumn"
    by blast+
  from a have a1: "fst (columnValueExpression 2 0 [(''name'', Str ''a'')] uuidColumn uuidOnSqlite) =
      [Param 0]"
    and a2: "parameters
      (snd (columnValueExpression 2 0 [(''name'', Str ''a'')] uuidColumn uuidOnSqlite)) =
      [Str ''01234567-89ab-4cde-f012-3456789abcde'']"
    by (simp_all add: q u)
  from t2 p(2)
  have b: "locallyGenerated
     (snd (columnValueExpression 2 1 [(''id'', Str ''given''), (''name'', Str ''b'')]
             uuidColumn uuidOnSqlite)) = locallyGenerated uuidOnSqlite"
    by simp
  from h p a1 a2 r b c show ?thesis by simp
qed

end
